theory Spec2Isabelle
  imports Main "HOL-Library.AList"
begin

section \<open>Exceptions and outcomes\<close>

text \<open>
  The \<^verbatim>\<open>except\<close> clauses of \<^verbatim>\<open>stdlib.py\<close> tell three kinds of exception apart:
  instances of \<^verbatim>\<open>TypeError\<close>, other instances of \<^verbatim>\<open>Exception\<close>, and instances of
  \<^verbatim>\<open>BaseException\<close> outside \<^verbatim>\<open>Exception\<close> (\<^verbatim>\<open>KeyboardInterrupt\<close>, \<^verbatim>\<open>SystemExit\<close>).
  An exception value carries that class and its message; re-raising the same instance is
  returning the same value.
\<close>

datatype exc_class = TypeError_class | Exception_class | BaseException_class

datatype exc = Exc exc_class string

fun isinstance_TypeError :: "exc \<Rightarrow> bool" where
  "isinstance_TypeError (Exc c m) = (c = TypeError_class)"

fun isinstance_Exception :: "exc \<Rightarrow> bool" where
  "isinstance_Exception (Exc c m) = (c = TypeError_class \<or> c = Exception_class)"

section \<open>Strings\<close>

text \<open>\<^verbatim>\<open>s.startswith(p)\<close>.\<close>

definition startswith :: "string \<Rightarrow> string \<Rightarrow> bool" where
  "startswith s p = (take (length p) s = p)"

text \<open>
  The idiom \<^verbatim>\<open>c and a or b\<close> on strings: \<^verbatim>\<open>a\<close> when \<^verbatim>\<open>c\<close> holds and \<^verbatim>\<open>a\<close> is
  non-empty (truthy), otherwise \<^verbatim>\<open>b\<close>.
\<close>

definition and_or :: "bool \<Rightarrow> string \<Rightarrow> string \<Rightarrow> string" where
  "and_or c a b = (if c \<and> a \<noteq> [] then a else b)"

text \<open>\<^verbatim>\<open>"%s" % n\<close> for an integer: its decimal numeral, with a minus sign when negative.\<close>

definition digit_char :: "nat \<Rightarrow> char" where
  "digit_char n = ''0123456789'' ! n"

fun decimal :: "nat \<Rightarrow> string" where
  "decimal n = (if n < 10 then [digit_char n] else decimal (n div 10) @ [digit_char (n mod 10)])"

definition str_int :: "int \<Rightarrow> string" where
  "str_int i = (if i < 0 then CHR ''-'' # decimal (nat (- i)) else decimal (nat i))"

section \<open>The HTTP call interceptor\<close>

subsection \<open>URL reconstruction (putrequest, lines 59-66)\<close>

definition url_scheme :: "int \<Rightarrow> string" where
  "url_scheme default_port = and_or (default_port = 443) ''https'' ''http''"

definition url_port_segment :: "int \<Rightarrow> int \<Rightarrow> string" where
  "url_port_segment port default_port =
     and_or (port \<noteq> default_port) (CHR '':'' # str_int port) ''''"

definition real_url :: "string \<Rightarrow> int \<Rightarrow> int \<Rightarrow> string \<Rightarrow> string" where
  "real_url host port default_port url =
     (if startswith url ''http://'' \<or> startswith url ''https://'' then url
      else url_scheme default_port @ ''://'' @ host @ url_port_segment port default_port @ url)"

subsection \<open>Connection handles, primitives and the tracing collaborators\<close>

text \<open>
  A connection handle: the attributes of \<^verbatim>\<open>HTTPConnection\<close> the wrappers read, the two
  attributes they attach (\<^verbatim>\<open>_sentrysdk_recorder\<close>, \<^verbatim>\<open>_sentrysdk_data_dict\<close>; \<open>None\<close> is
  an attribute that is absent, which \<^verbatim>\<open>getattr(self, ..., None)\<close> reads as \<^verbatim>\<open>None\<close>), and
  the state owned by the unwrapped library. The attached attributes are references:
  the identifier of a recorder and of a data dictionary in the world below.
\<close>

record 'c conn =
  host :: string
  port :: int
  default_port :: int
  sentrysdk_recorder :: "nat option"
  sentrysdk_data_dict :: "nat option"
  native :: 'c

record response =
  status :: int
  reason :: string

text \<open>
  The unwrapped primitives are parameters: each acts on the library's own state and
  either returns or raises.
\<close>

record ('c, 'x, 'r) primitives =
  real_putrequest :: "'c \<Rightarrow> string \<Rightarrow> string \<Rightarrow> 'x \<Rightarrow> (exc + 'r) \<times> 'c"
  putheader :: "'c \<Rightarrow> string \<Rightarrow> string \<Rightarrow> exc option \<times> 'c"
  real_getresponse :: "'c \<Rightarrow> 'x \<Rightarrow> (exc + response) \<times> 'c"

text \<open>\<^verbatim>\<open>Hub.current\<close>: whether the integration is active, and the propagation headers.\<close>

record hub =
  integration_active :: bool
  trace_propagation_headers :: "(string \<times> string) list"

datatype dval = DResponse response | DInt int | DStr string

datatype event =
    SpanOpened nat
  | SpanClosed nat "exc option"
  | Called_real_putrequest string string
  | Called_putheader string string
  | Called_real_getresponse

text \<open>
  The world outside the handle: the trace of what happened, in order, and the recorder
  objects, each with its description and its data dictionary.
\<close>

record world =
  events :: "event list"
  span_descr :: "nat \<Rightarrow> string \<times> string"
  data_dicts :: "nat \<Rightarrow> (string \<times> dval) list"
  span_open :: "nat \<Rightarrow> bool"
  next_recorder :: nat

text \<open>
  Modelled from the spec: \<^verbatim>\<open>record_http_request\<close> of \<^verbatim>\<open>sentry_sdk.tracing\<close> is not part
  of the sources. It yields a scoped span handle for an \<^verbatim>\<open>"http"\<close> span described by the
  URL and the method; entering it opens the span and returns the span's auxiliary data
  mapping; leaving it closes the span with the outcome given (\<open>None\<close> for success).
  A span is closed exactly once: once closed the handle is inert, and leaving it again
  does nothing. The mapping's first content is the collaborator's business and is left
  empty here.
\<close>

definition record_http_request :: "world \<Rightarrow> string \<Rightarrow> string \<Rightarrow> nat \<times> world" where
  "record_http_request w url method =
     (next_recorder w,
      w\<lparr>span_descr := (span_descr w)(next_recorder w := (url, method)),
        data_dicts := (data_dicts w)(next_recorder w := []),
        span_open := (span_open w)(next_recorder w := False),
        next_recorder := Suc (next_recorder w)\<rparr>)"

definition recorder_enter :: "nat \<Rightarrow> world \<Rightarrow> nat \<times> world" where
  "recorder_enter r w =
     (r, w\<lparr>events := events w @ [SpanOpened r], span_open := (span_open w)(r := True)\<rparr>)"

definition close_span :: "nat \<Rightarrow> exc option \<Rightarrow> world \<Rightarrow> world" where
  "close_span r outcome w =
     w\<lparr>events := events w @ [SpanClosed r outcome], span_open := (span_open w)(r := False)\<rparr>"

definition recorder_exit :: "nat \<Rightarrow> exc option \<Rightarrow> world \<Rightarrow> world" where
  "recorder_exit r outcome w = (if span_open w r then close_span r outcome w else w)"

subsection \<open>putrequest (lines 50-83)\<close>

definition called :: "event list \<Rightarrow> world \<Rightarrow> world" where
  "called evs w = w\<lparr>events := events w @ evs\<rparr>"

definition call_real_putrequest ::
  "('c, 'x, 'r) primitives \<Rightarrow> 'c conn \<Rightarrow> world \<Rightarrow> string \<Rightarrow> string \<Rightarrow> 'x
     \<Rightarrow> (exc + 'r) \<times> 'c conn \<times> world" where
  "call_real_putrequest P self w method url x =
     (case real_putrequest P (native self) method url x of
        (out, c) \<Rightarrow> (out, self\<lparr>native := c\<rparr>, called [Called_real_putrequest method url] w))"

text \<open>
  The loop of lines 74-75 on the library's state: it stops at the first header whose
  \<^verbatim>\<open>putheader\<close> raises, and returns the calls it made.
\<close>

fun put_headers ::
  "('c, 'x, 'r) primitives \<Rightarrow> (string \<times> string) list \<Rightarrow> 'c \<Rightarrow> exc option \<times> 'c \<times> event list" where
  "put_headers P [] c = (None, c, [])"
| "put_headers P ((key, val) # hs) c =
     (case putheader P c key val of
        (Some e, c1) \<Rightarrow> (Some e, c1, [Called_putheader key val])
      | (None, c1) \<Rightarrow>
          (case put_headers P hs c1 of
             (r, c2, evs) \<Rightarrow> (r, c2, Called_putheader key val # evs)))"

text \<open>
  Lines 76-78: \<^verbatim>\<open>except Exception\<close> closes the recorder with the failure; the exception
  is raised again either way, and an exception outside \<^verbatim>\<open>Exception\<close> passes the clause by.
\<close>

definition except_Exception :: "exc \<Rightarrow> nat \<Rightarrow> world \<Rightarrow> world" where
  "except_Exception e recorder w =
     (if isinstance_Exception e then recorder_exit recorder (Some e) w else w)"

definition putrequest ::
  "('c, 'x, 'r) primitives \<Rightarrow> hub \<Rightarrow> 'c conn \<Rightarrow> world \<Rightarrow> string \<Rightarrow> string \<Rightarrow> 'x
     \<Rightarrow> (exc + 'r) \<times> 'c conn \<times> world" where
  "putrequest P h self w method url x =
     (if \<not> integration_active h then call_real_putrequest P self w method url x
      else
        (case record_http_request w (real_url (host self) (port self) (default_port self) url) method of
           (recorder, w1) \<Rightarrow>
             (case recorder_enter recorder w1 of
                (data_dict, w2) \<Rightarrow>
                  (case call_real_putrequest P self w2 method url x of
                     (Inl e, self1, w3) \<Rightarrow> (Inl e, self1, except_Exception e recorder w3)
                   | (Inr rv, self1, w3) \<Rightarrow>
                       (case put_headers P (trace_propagation_headers h) (native self1) of
                          (Some e, c2, evs) \<Rightarrow>
                            (Inl e, self1\<lparr>native := c2\<rparr>, except_Exception e recorder (called evs w3))
                        | (None, c2, evs) \<Rightarrow>
                            (Inr rv,
                             self1\<lparr>native := c2,
                                   sentrysdk_recorder := Some recorder,
                                   sentrysdk_data_dict := Some data_dict\<rparr>,
                             called evs w3))))))"

text \<open>
  The exception, if any, that the unwrapped call or the header injection raises in the
  request phase, read off the primitives alone.
\<close>

definition request_raises ::
  "('c, 'x, 'r) primitives \<Rightarrow> hub \<Rightarrow> 'c \<Rightarrow> string \<Rightarrow> string \<Rightarrow> 'x \<Rightarrow> exc option" where
  "request_raises P h c method url x =
     (case real_putrequest P c method url x of
        (Inl e, c1) \<Rightarrow> Some e
      | (Inr rv, c1) \<Rightarrow> fst (put_headers P (trace_propagation_headers h) c1))"

subsection \<open>getresponse (lines 85-111)\<close>

definition call_real_getresponse ::
  "('c, 'x, 'r) primitives \<Rightarrow> 'c conn \<Rightarrow> world \<Rightarrow> 'x
     \<Rightarrow> (exc + response) \<times> 'c conn \<times> world" where
  "call_real_getresponse P self w x =
     (case real_getresponse P (native self) x of
        (out, c) \<Rightarrow> (out, self\<lparr>native := c\<rparr>, called [Called_real_getresponse] w))"

text \<open>Lines 96-99: the three entries written when the data dictionary is there.\<close>

definition record_response :: "nat option \<Rightarrow> response \<Rightarrow> world \<Rightarrow> world" where
  "record_response data_dict rv w =
     (case data_dict of
        None \<Rightarrow> w
      | Some d \<Rightarrow>
          w\<lparr>data_dicts := (data_dicts w)(d :=
              AList.update ''reason'' (DStr (reason rv))
                (AList.update ''status_code'' (DInt (status rv))
                  (AList.update ''httplib_response'' (DResponse rv) (data_dicts w d))))\<rparr>)"

definition getresponse ::
  "('c, 'x, 'r) primitives \<Rightarrow> 'c conn \<Rightarrow> world \<Rightarrow> 'x
     \<Rightarrow> (exc + response) \<times> 'c conn \<times> world" where
  "getresponse P self w x =
     (case sentrysdk_recorder self of
        None \<Rightarrow> call_real_getresponse P self w x
      | Some recorder \<Rightarrow>
          (case call_real_getresponse P self w x of
             (Inr rv, self1, w1) \<Rightarrow>
               (Inr rv, self1,
                recorder_exit recorder None (record_response (sentrysdk_data_dict self) rv w1))
           | (Inl e, self1, w1) \<Rightarrow>
               (if isinstance_TypeError e then (Inl e, self1, w1)
                else if isinstance_Exception e then
                  (Inl e, self1, recorder_exit recorder (Some e) w1)
                else (Inl e, self1, w1))))"

text \<open>A sequence of response-phase calls on one handle, with the outcome of each.\<close>

fun getresponse_seq ::
  "('c, 'x, 'r) primitives \<Rightarrow> 'c conn \<Rightarrow> world \<Rightarrow> 'x list
     \<Rightarrow> (exc + response) list \<times> 'c conn \<times> world" where
  "getresponse_seq P self w [] = ([], self, w)"
| "getresponse_seq P self w (x # xs) =
     (case getresponse P self w x of
        (out, self1, w1) \<Rightarrow>
          (case getresponse_seq P self1 w1 xs of
             (outs, self2, w2) \<Rightarrow> (out # outs, self2, w2)))"

text \<open>How often recorder \<open>r\<close> was closed in a trace.\<close>

fun is_close_of :: "nat \<Rightarrow> event \<Rightarrow> bool" where
  "is_close_of r (SpanClosed r' outcome) = (r' = r)"
| "is_close_of r ev = False"

definition closes :: "nat \<Rightarrow> event list \<Rightarrow> nat" where
  "closes r evs = length (filter (is_close_of r) evs)"

text \<open>
  The outcomes of the unwrapped \<^verbatim>\<open>getresponse\<close> after which the wrapper leaves the
  recorder: a return, and an \<^verbatim>\<open>Exception\<close> that is not a \<^verbatim>\<open>TypeError\<close>.
\<close>

fun closing_outcome :: "exc + response \<Rightarrow> bool" where
  "closing_outcome (Inr rv) = True"
| "closing_outcome (Inl e) = (isinstance_Exception e \<and> \<not> isinstance_TypeError e)"

subsection \<open>A connection to try the wrappers on\<close>

text \<open>
  Primitives that behave as \<^verbatim>\<open>http.client\<close> does on one connection: the state says
  how far the connection is (0 idle, 1 request sent). A request can be started on an idle
  connection only; a response can be read once per request, after which the connection
  is idle again; and
  \<^verbatim>\<open>getresponse(buffering=True)\<close> (the flag of the extra argument) is refused with a
  \<^verbatim>\<open>TypeError\<close>, as Python 3 does for the probe of python-requests.
\<close>

definition ex_response :: response where
  "ex_response = \<lparr>status = 404, reason = ''Not Found''\<rparr>"

definition CannotSendRequest :: exc where
  "CannotSendRequest = Exc Exception_class ''CannotSendRequest''"

definition ResponseNotReady :: exc where
  "ResponseNotReady = Exc Exception_class ''ResponseNotReady''"

definition buffering_TypeError :: exc where
  "buffering_TypeError = Exc TypeError_class ''getresponse() got an unexpected keyword argument''"

definition KeyboardInterrupt :: exc where
  "KeyboardInterrupt = Exc BaseException_class ''KeyboardInterrupt''"

definition ex_primitives :: "(nat, bool, unit) primitives" where
  "ex_primitives =
     \<lparr>real_putrequest = (\<lambda>c method url x. if c = 0 then (Inr (), 1) else (Inl CannotSendRequest, c)),
      putheader = (\<lambda>c key val. (None, c)),
      real_getresponse = (\<lambda>c buffering.
         if buffering then (Inl buffering_TypeError, c)
         else if c = 1 then (Inr ex_response, 0)
         else (Inl ResponseNotReady, c))\<rparr>"

text \<open>The same connection when the user interrupts the program during each call.\<close>

definition interrupted_primitives :: "(nat, bool, unit) primitives" where
  "interrupted_primitives =
     \<lparr>real_putrequest = (\<lambda>c method url x. (Inl KeyboardInterrupt, c)),
      putheader = (\<lambda>c key val. (Some KeyboardInterrupt, c)),
      real_getresponse = (\<lambda>c buffering. (Inl KeyboardInterrupt, c))\<rparr>"

text \<open>The same connection when every header is refused, and when no response arrives in time.\<close>

definition InvalidHeader :: exc where
  "InvalidHeader = Exc Exception_class ''ValueError: Invalid header name''"

definition socket_timeout :: exc where
  "socket_timeout = Exc Exception_class ''timed out''"

definition refusing_primitives :: "(nat, bool, unit) primitives" where
  "refusing_primitives = ex_primitives\<lparr>putheader := (\<lambda>c key val. (Some InvalidHeader, c))\<rparr>"

definition timeout_primitives :: "(nat, bool, unit) primitives" where
  "timeout_primitives = ex_primitives\<lparr>real_getresponse := (\<lambda>c buffering. (Inl socket_timeout, c))\<rparr>"

definition ex_conn :: "nat conn" where
  "ex_conn =
     \<lparr>host = ''example.com'', port = 80, default_port = 80,
      sentrysdk_recorder = None, sentrysdk_data_dict = None, native = 0\<rparr>"

definition ex_world :: world where
  "ex_world =
     \<lparr>events = [], span_descr = (\<lambda>r. ([], [])), data_dicts = (\<lambda>r. []),
      span_open = (\<lambda>r. False), next_recorder = 0\<rparr>"

definition ex_hub :: hub where
  "ex_hub = \<lparr>integration_active = True, trace_propagation_headers = [(''sentry-trace'', ''abc'')]\<rparr>"

text \<open>
  The handle and the world after a request phase that succeeded, and after the response
  was then read.
\<close>

definition after_request :: "nat conn \<times> world" where
  "after_request = snd (putrequest ex_primitives ex_hub ex_conn ex_world ''GET'' ''/path'' False)"

definition after_first_exchange :: "nat conn \<times> world" where
  "after_first_exchange =
     snd (getresponse ex_primitives (fst after_request) (snd after_request) False)"

fun is_putheader :: "event \<Rightarrow> bool" where
  "is_putheader (Called_putheader key val) = True"
| "is_putheader ev = False"

section \<open>The argument extractor (lines 117-144)\<close>

text \<open>
  The values an argument of \<^verbatim>\<open>Popen\<close> can have, as far as the file looks at them. A
  dictionary is a reference into a heap of dictionary objects, since \<^verbatim>\<open>env\<close> is updated
  in place and shared between the local variable and the argument list. A string is the
  UTF-8 encoding of a Python text.
\<close>

datatype pyval =
    PNone
  | PStr string
  | PInt int
  | PList "pyval list"
  | PTuple "pyval list"
  | PDict nat

record heap =
  objs :: "nat \<Rightarrow> (pyval \<times> pyval) list"
  next_ref :: nat
  os_environ :: nat

type_synonym kwargs = "(string \<times> pyval) list"

type_synonym callback = "pyval \<Rightarrow> heap \<Rightarrow> exc + (pyval \<times> heap)"

text \<open>
  Lines 129-130 and 135-136: the value read is replaced by the callback's result when a
  callback is given. A callback may allocate, and may raise.
\<close>

definition apply_callback :: "callback option \<Rightarrow> callback" where
  "apply_callback setdefault_callback rv h =
     (case setdefault_callback of None \<Rightarrow> Inr (rv, h) | Some f \<Rightarrow> f rv h)"

definition init_argument ::
  "pyval list \<Rightarrow> kwargs \<Rightarrow> string \<Rightarrow> nat \<Rightarrow> callback option \<Rightarrow> heap
     \<Rightarrow> exc + (pyval \<times> pyval list \<times> kwargs \<times> heap)" where
  "init_argument args kwargs name position setdefault_callback h =
     (case map_of kwargs name of
        Some cur \<Rightarrow>
          (case apply_callback setdefault_callback cur h of
             Inl e \<Rightarrow> Inl e
           | Inr (rv, h') \<Rightarrow>
               Inr (rv, args, (if rv \<noteq> PNone then AList.update name rv kwargs else kwargs), h'))
      | None \<Rightarrow>
          (if position < length args then
             (case apply_callback setdefault_callback (args ! position) h of
                Inl e \<Rightarrow> Inl e
              | Inr (rv, h') \<Rightarrow>
                  Inr (rv, (if rv \<noteq> PNone then args[position := rv] else args), kwargs, h'))
           else
             (case setdefault_callback of
                None \<Rightarrow> Inr (PNone, args, kwargs, h)
              | Some f \<Rightarrow>
                  (case f PNone h of
                     Inl e \<Rightarrow> Inl e
                   | Inr (rv, h') \<Rightarrow>
                       Inr (rv, args,
                            (if rv \<noteq> PNone then AList.update name rv kwargs else kwargs), h')))))"

text \<open>
  What the caller supplied for a parameter: the keyword argument of that name, else the
  positional argument at its position, else nothing.
\<close>

definition supplied :: "pyval list \<Rightarrow> kwargs \<Rightarrow> string \<Rightarrow> nat \<Rightarrow> pyval option" where
  "supplied args kwargs name position =
     (case map_of kwargs name of
        Some cur \<Rightarrow> Some cur
      | None \<Rightarrow> (if position < length args then Some (args ! position) else None))"

section \<open>The process spawn interceptor (lines 150-187)\<close>

subsection \<open>Environment variable names (line 182)\<close>

text \<open>
  \<^verbatim>\<open>str.upper\<close> and \<^verbatim>\<open>str.lower\<close>. On a text of ASCII characters they map the letters
  and keep every other character. The casing of a text with other characters follows
  the Unicode tables, which can change its length (\<open>\<ss>\<close> becomes \<open>SS\<close>): it is a
  parameter of the model, \<open>unicode_upper\<close> and \<open>unicode_lower\<close>.
\<close>

definition is_ascii :: "char \<Rightarrow> bool" where
  "is_ascii c = (\<not> digit7 c)"

definition upper_char :: "char \<Rightarrow> char" where
  "upper_char c =
     (case map_of (zip ''abcdefghijklmnopqrstuvwxyz'' ''ABCDEFGHIJKLMNOPQRSTUVWXYZ'') c of
        Some u \<Rightarrow> u | None \<Rightarrow> c)"

definition lower_char :: "char \<Rightarrow> char" where
  "lower_char c =
     (case map_of (zip ''ABCDEFGHIJKLMNOPQRSTUVWXYZ'' ''abcdefghijklmnopqrstuvwxyz'') c of
        Some l \<Rightarrow> l | None \<Rightarrow> c)"

definition upper :: "(string \<Rightarrow> string) \<Rightarrow> string \<Rightarrow> string" where
  "upper unicode_upper s = (if list_all is_ascii s then map upper_char s else unicode_upper s)"

definition lower :: "(string \<Rightarrow> string) \<Rightarrow> string \<Rightarrow> string" where
  "lower unicode_lower s = (if list_all is_ascii s then map lower_char s else unicode_lower s)"

text \<open>
  \<^verbatim>\<open>s.replace(a, b)\<close> for ASCII characters \<open>a\<close> and \<open>b\<close>: in UTF-8 an ASCII byte is always a
  character of its own.
\<close>

definition replace_char :: "char \<Rightarrow> char \<Rightarrow> string \<Rightarrow> string" where
  "replace_char a b s = map (\<lambda>c. if c = a then b else c) s"

definition env_key :: "(string \<Rightarrow> string) \<Rightarrow> string \<Rightarrow> string" where
  "env_key unicode_upper k =
     ''SUBPROCESS_'' @ replace_char (CHR ''-'') (CHR ''_'') (upper unicode_upper k)"

subsection \<open>The conversion to a dictionary\<close>

text \<open>Truth value of an argument, as \<^verbatim>\<open>x or os.environ\<close> tests it.\<close>

fun truthy :: "heap \<Rightarrow> pyval \<Rightarrow> bool" where
  "truthy h PNone = False"
| "truthy h (PStr s) = (s \<noteq> [])"
| "truthy h (PInt i) = (i \<noteq> 0)"
| "truthy h (PList xs) = (xs \<noteq> [])"
| "truthy h (PTuple xs) = (xs \<noteq> [])"
| "truthy h (PDict r) = (objs h r \<noteq> [])"

text \<open>
  The characters of a text, each as a text of its own: in UTF-8 a character is a byte
  that is no continuation byte, with the continuation bytes that follow it.
\<close>

definition is_continuation :: "char \<Rightarrow> bool" where
  "is_continuation c = (digit7 c \<and> \<not> digit6 c)"

function code_points :: "string \<Rightarrow> string list" where
  "code_points [] = []"
| "code_points (c # cs) =
     (c # takeWhile is_continuation cs) # code_points (dropWhile is_continuation cs)"
  by pat_completeness auto
termination
  by (relation "measure length") (auto simp: length_dropWhile_le less_Suc_eq_le)

text \<open>What iterating over a value yields; \<open>None\<close> when the value is not iterable.\<close>

fun iter_items :: "heap \<Rightarrow> pyval \<Rightarrow> pyval list option" where
  "iter_items h PNone = None"
| "iter_items h (PInt i) = None"
| "iter_items h (PStr s) = Some (map PStr (code_points s))"
| "iter_items h (PList xs) = Some xs"
| "iter_items h (PTuple xs) = Some xs"
| "iter_items h (PDict r) = Some (map fst (objs h r))"

fun hashable :: "pyval \<Rightarrow> bool" where
  "hashable PNone = True"
| "hashable (PStr s) = True"
| "hashable (PInt i) = True"
| "hashable (PTuple xs) = list_all hashable xs"
| "hashable (PList xs) = False"
| "hashable (PDict r) = False"

text \<open>
  One element of the sequence given to \<^verbatim>\<open>dict\<close>: it must be iterable, have two items,
  and the first must be hashable.
\<close>

definition key_value :: "heap \<Rightarrow> pyval \<Rightarrow> exc + (pyval \<times> pyval)" where
  "key_value h e =
     (case iter_items h e of
        None \<Rightarrow>
          Inl (Exc TypeError_class ''cannot convert dictionary update sequence element to a sequence'')
      | Some [k, v] \<Rightarrow>
          (if hashable k then Inr (k, v) else Inl (Exc TypeError_class ''unhashable type''))
      | Some items \<Rightarrow>
          Inl (Exc Exception_class ''ValueError: dictionary update sequence element has length other than 2''))"

fun dict_update_seq ::
  "heap \<Rightarrow> pyval list \<Rightarrow> (pyval \<times> pyval) list \<Rightarrow> exc + (pyval \<times> pyval) list" where
  "dict_update_seq h [] d = Inr d"
| "dict_update_seq h (e # es) d =
     (case key_value h e of
        Inl err \<Rightarrow> Inl err
      | Inr (k, v) \<Rightarrow> dict_update_seq h es (AList.update k v d))"

text \<open>A new dictionary object with the entries \<open>d\<close>.\<close>

definition new_dict :: "(pyval \<times> pyval) list \<Rightarrow> heap \<Rightarrow> pyval \<times> heap" where
  "new_dict d h =
     (PDict (next_ref h),
      h\<lparr>objs := (objs h)(next_ref h := d), next_ref := Suc (next_ref h)\<rparr>)"

text \<open>\<^verbatim>\<open>dict(m)\<close> for a dictionary \<open>m\<close>: a new object with the same entries.\<close>

definition dict_copy :: "nat \<Rightarrow> heap \<Rightarrow> pyval \<times> heap" where
  "dict_copy r h = new_dict (objs h r) h"

text \<open>
  \<^verbatim>\<open>dict(x)\<close>: a copy of a dictionary; otherwise the dictionary of the key-value pairs
  that iterating over \<open>x\<close> yields.
\<close>

definition dict_of :: "pyval \<Rightarrow> heap \<Rightarrow> exc + (pyval \<times> heap)" where
  "dict_of x h =
     (case x of
        PDict r \<Rightarrow> Inr (dict_copy r h)
      | _ \<Rightarrow>
          (case iter_items h x of
             None \<Rightarrow> Inl (Exc TypeError_class ''object is not iterable'')
           | Some es \<Rightarrow>
               (case dict_update_seq h es [] of
                  Inl err \<Rightarrow> Inl err
                | Inr d \<Rightarrow> Inr (new_dict d h))))"

subsection \<open>The lazily built environment (lines 177-182)\<close>

text \<open>The callback \<^verbatim>\<open>lambda x: dict(x or os.environ)\<close>.\<close>

definition env_default :: callback where
  "env_default x h = dict_of (if truthy h x then x else PDict (os_environ h)) h"

text \<open>
  The dictionary that the callback copies for what the caller supplied as \<^verbatim>\<open>env\<close>, when
  that is absent, \<^verbatim>\<open>None\<close> or a dictionary: the caller's own when it is not empty,
  otherwise \<^verbatim>\<open>os.environ\<close>.
\<close>

definition env_source :: "heap \<Rightarrow> pyval option \<Rightarrow> nat" where
  "env_source h given =
     (case given of
        Some (PDict r) \<Rightarrow> (if objs h r \<noteq> [] then r else os_environ h)
      | _ \<Rightarrow> os_environ h)"

text \<open>
  An \<^verbatim>\<open>env\<close> that \<^verbatim>\<open>Popen\<close> accepts: absent, \<^verbatim>\<open>None\<close>, or a dictionary that exists.
\<close>

definition env_well_formed :: "heap \<Rightarrow> pyval option \<Rightarrow> bool" where
  "env_well_formed h given =
     (os_environ h < next_ref h \<and>
      (case given of
         None \<Rightarrow> True
       | Some PNone \<Rightarrow> True
       | Some (PDict r) \<Rightarrow> r < next_ref h
       | Some other \<Rightarrow> False))"

text \<open>\<^verbatim>\<open>env[key] = v\<close> on the dictionary object \<open>r\<close>.\<close>

definition setitem :: "nat \<Rightarrow> pyval \<Rightarrow> pyval \<Rightarrow> heap \<Rightarrow> heap" where
  "setitem r key v h = h\<lparr>objs := (objs h)(r := AList.update key v (objs h r))\<rparr>"

text \<open>
  The loop of lines 179-182, with the local variable \<^verbatim>\<open>env\<close>, the argument list, the
  keyword arguments and the heap as its state.
\<close>

fun inject_headers ::
  "(string \<Rightarrow> string) \<Rightarrow> (string \<times> string) list \<Rightarrow> pyval \<Rightarrow> pyval list \<Rightarrow> kwargs \<Rightarrow> heap
     \<Rightarrow> exc + (pyval \<times> pyval list \<times> kwargs \<times> heap)" where
  "inject_headers uu [] env a kw h = Inr (env, a, kw, h)"
| "inject_headers uu ((k, v) # hs) env a kw h =
     (case (if env = PNone then init_argument a kw ''env'' 10 (Some env_default) h
            else Inr (env, a, kw, h)) of
        Inl e \<Rightarrow> Inl e
      | Inr (env1, a1, kw1, h1) \<Rightarrow>
          (case env1 of
             PDict r \<Rightarrow>
               inject_headers uu hs env1 a1 kw1 (setitem r (PStr (env_key uu k)) (PStr v) h1)
           | _ \<Rightarrow> Inl (Exc TypeError_class ''object does not support item assignment'')))"

text \<open>
  The wrapper up to the call of the unwrapped constructor: the result is the positional
  and keyword arguments the constructor is called with, and the heap at that moment. The
  description of the span (lines 161-175) reads \<^verbatim>\<open>args\<close> only and is left out.
\<close>

definition sentry_patched_popen_init ::
  "(string \<Rightarrow> string) \<Rightarrow> hub \<Rightarrow> pyval list \<Rightarrow> kwargs \<Rightarrow> heap
     \<Rightarrow> exc + (pyval list \<times> kwargs \<times> heap)" where
  "sentry_patched_popen_init uu hb a kw h =
     (if \<not> integration_active hb then Inr (a, kw, h)
      else
        (case init_argument a kw ''args'' 0 None h of
           Inl e \<Rightarrow> Inl e
         | Inr (args, a1, kw1, h1) \<Rightarrow>
             (case init_argument a1 kw1 ''cwd'' 9 None h1 of
                Inl e \<Rightarrow> Inl e
              | Inr (cwd, a2, kw2, h2) \<Rightarrow>
                  (case inject_headers uu (trace_propagation_headers hb) PNone a2 kw2 h2 of
                     Inl e \<Rightarrow> Inl e
                   | Inr (env, a3, kw3, h3) \<Rightarrow> Inr (a3, kw3, h3)))))"

text \<open>What the loop of lines 179-182 does to the entries of the dictionary it writes to.\<close>

definition env_items ::
  "(string \<Rightarrow> string) \<Rightarrow> (string \<times> string) list \<Rightarrow> (pyval \<times> pyval) list \<Rightarrow> (pyval \<times> pyval) list" where
  "env_items uu hs d = fold (\<lambda>(k, v). AList.update (PStr (env_key uu k)) (PStr v)) hs d"

subsection \<open>The trace context codec\<close>

text \<open>
  The same loop on an environment of strings: the variables it writes for a sequence of
  headers into the environment \<open>env\<close>, and into an empty one.
\<close>

definition environment_pairs ::
  "(string \<Rightarrow> string) \<Rightarrow> (string \<times> string) list \<Rightarrow> (string \<times> string) list
     \<Rightarrow> (string \<times> string) list" where
  "environment_pairs uu hs env = fold (\<lambda>(k, v). AList.update (env_key uu k) v) hs env"

definition to_environment_pairs ::
  "(string \<Rightarrow> string) \<Rightarrow> (string \<times> string) list \<Rightarrow> (string \<times> string) list" where
  "to_environment_pairs uu hs = environment_pairs uu hs []"

definition str_items :: "(string \<times> string) list \<Rightarrow> (pyval \<times> pyval) list" where
  "str_items env = map (\<lambda>(k, v). (PStr k, PStr v)) env"

text \<open>
  Modelled from the spec: \<^verbatim>\<open>EnvironHeaders\<close> of \<^verbatim>\<open>sentry_sdk.tracing\<close>, which line 193
  builds over the environment with the prefix \<^verbatim>\<open>SUBPROCESS_\<close>, is not part of the sources.
  It is a read view over the environment restricted to the keys with the given prefix,
  exposing them with the prefix stripped and the case and format reversed: lower case,
  and underscores as dashes.
\<close>

definition header_name :: "(string \<Rightarrow> string) \<Rightarrow> string \<Rightarrow> string" where
  "header_name ul k = lower ul (replace_char (CHR ''_'') (CHR ''-'') k)"

definition from_environment ::
  "(string \<Rightarrow> string) \<Rightarrow> string \<Rightarrow> (string \<times> string) list \<Rightarrow> (string \<times> string) list" where
  "from_environment ul prefix env =
     map (\<lambda>(k, v). (header_name ul (drop (length prefix) k), v))
       (filter (\<lambda>(k, v). startswith k prefix) env)"

definition get_subprocess_traceparent_headers ::
  "(string \<Rightarrow> string) \<Rightarrow> (string \<times> string) list \<Rightarrow> (string \<times> string) list" where
  "get_subprocess_traceparent_headers ul environ = from_environment ul ''SUBPROCESS_'' environ"

text \<open>
  A header name that the encoding does not change beyond recovery: ASCII characters only,
  no upper-case letter and no underscore.
\<close>

definition canonical_name :: "string \<Rightarrow> bool" where
  "canonical_name k =
     list_all (\<lambda>c. is_ascii c \<and> c \<noteq> CHR ''_'' \<and> c \<notin> set ''ABCDEFGHIJKLMNOPQRSTUVWXYZ'') k"

section \<open>The runtime metadata reporter (lines 19-42)\<close>

datatype jval =
    JNone
  | JStr string
  | JInt int
  | JList "jval list"
  | JDict "(string \<times> jval) list"

record platform =
  python_implementation :: string
  version_info :: "int \<times> int \<times> int"
  version :: string

definition RUNTIME_CONTEXT :: "platform \<Rightarrow> jval" where
  "RUNTIME_CONTEXT pf =
     JDict [(''name'', JStr (python_implementation pf)),
            (''version'',
             JStr (case version_info pf of
                     (major, minor, micro) \<Rightarrow>
                       str_int major @ ''.'' @ str_int minor @ ''.'' @ str_int micro)),
            (''build'', JStr (version pf))]"

text \<open>\<^verbatim>\<open>d.setdefault(key, default)\<close>: the value read, and the dictionary afterwards.\<close>

definition setdefault :: "(string \<times> jval) list \<Rightarrow> string \<Rightarrow> jval \<Rightarrow> jval \<times> (string \<times> jval) list" where
  "setdefault d key dflt =
     (case map_of d key of
        Some cur \<Rightarrow> (cur, d)
      | None \<Rightarrow> (dflt, AList.update key dflt d))"

text \<open>
  The event processor. \<^verbatim>\<open>contexts\<close> is the object stored in the event, so the assignment
  of line 40 is an update of the event's entry.
\<close>

definition add_python_runtime_context ::
  "platform \<Rightarrow> hub \<Rightarrow> (string \<times> jval) list \<Rightarrow> 'hint \<Rightarrow> (string \<times> jval) list" where
  "add_python_runtime_context pf hb event hint =
     (if integration_active hb then
        (case setdefault event ''contexts'' (JDict []) of
           (contexts, event1) \<Rightarrow>
             (case contexts of
                JDict d \<Rightarrow>
                  (if map_of d ''runtime'' = None then
                     AList.update ''contexts''
                       (JDict (AList.update ''runtime'' (RUNTIME_CONTEXT pf) d)) event1
                   else event1)
              | _ \<Rightarrow> event1))
      else event)"

text \<open>The event's contexts mapping; empty when the event has none.\<close>

definition contexts_mapping :: "(string \<times> jval) list \<Rightarrow> (string \<times> jval) list" where
  "contexts_mapping event = (case map_of event ''contexts'' of Some (JDict d) \<Rightarrow> d | _ \<Rightarrow> [])"

section \<open>A process to try the wrapper on\<close>

text \<open>
  A heap with \<^verbatim>\<open>os.environ\<close> at 0 and a dictionary of the caller's at 1, and a call
  \<^verbatim>\<open>Popen(["ls", "-la"], cwd="/tmp")\<close>. The texts of the examples are ASCII, so that their
  casing never reaches the Unicode tables; \<open>no_unicode\<close> stands for these.
\<close>

definition no_unicode :: "string \<Rightarrow> string" where
  "no_unicode s = s"

definition ex_heap :: heap where
  "ex_heap =
     \<lparr>objs = (\<lambda>r. [])(0 := [(PStr ''PATH'', PStr ''/usr/bin'')],
                        1 := [(PStr ''HOME'', PStr ''/root'')]),
      next_ref = 2, os_environ = 0\<rparr>"

definition ex_args :: "pyval list" where
  "ex_args = [PList [PStr ''ls'', PStr ''-la'']]"

definition ex_kwargs :: kwargs where
  "ex_kwargs = [(''cwd'', PStr ''/tmp'')]"

text \<open>
  A heap where the caller's dictionary, at 2, is empty, for a call
  \<^verbatim>\<open>Popen(["ls", "-la"], env={})\<close>.
\<close>

definition empty_env_heap :: heap where
  "empty_env_heap =
     \<lparr>objs = (\<lambda>r. [])(0 := [(PStr ''PATH'', PStr ''/usr/bin'')], 2 := []),
      next_ref = 3, os_environ = 0\<rparr>"

definition ex_platform :: platform where
  "ex_platform =
     \<lparr>python_implementation = ''CPython'', version_info = (3, 7, 4),
      version = ''3.7.4 (default, Jul  9 2019) [GCC 6.3.0]''\<rparr>"

definition ex_event :: "(string \<times> jval) list" where
  "ex_event = [(''message'', JStr ''boom''), (''contexts'', JDict [(''os'', JStr ''Linux'')])]"

section \<open>Facts about the URL\<close>

lemma decimal_nonempty: "decimal n \<noteq> []"
  by (subst decimal.simps) simp

lemma url_scheme_eq: "url_scheme dp = (if dp = 443 then ''https'' else ''http'')"
  by (simp add: url_scheme_def and_or_def)

lemma url_port_segment_eq:
  "url_port_segment p dp = (if p = dp then [] else CHR '':'' # str_int p)"
  by (simp add: url_port_segment_def and_or_def)

text \<open>The request phase with the integration active, step by step.\<close>

lemma putrequest_active:
  assumes "integration_active h"
  shows "putrequest P h self w meth url x =
    (let r = next_recorder w;
         w2 = w\<lparr>span_descr := (span_descr w)(r :=
                  (real_url (host self) (port self) (default_port self) url, meth)),
                data_dicts := (data_dicts w)(r := []),
                next_recorder := Suc r,
                span_open := (span_open w)(r := True),
                events := events w @ [SpanOpened r, Called_real_putrequest meth url]\<rparr>
     in case real_putrequest P (native self) meth url x of
          (Inl e, c1) \<Rightarrow> (Inl e, self\<lparr>native := c1\<rparr>, except_Exception e r w2)
        | (Inr rv, c1) \<Rightarrow>
            (case put_headers P (trace_propagation_headers h) c1 of
               (Some e, c2, evs) \<Rightarrow>
                 (Inl e, self\<lparr>native := c2\<rparr>, except_Exception e r (called evs w2))
             | (None, c2, evs) \<Rightarrow>
                 (Inr rv,
                  self\<lparr>native := c2, sentrysdk_recorder := Some r, sentrysdk_data_dict := Some r\<rparr>,
                  called evs w2)))"
  using assms
  by (simp add: putrequest_def record_http_request_def recorder_enter_def call_real_putrequest_def
      called_def Let_def split: prod.splits sum.splits option.splits)

lemma putrequest_span_descr:
  assumes "integration_active h"
  shows "span_descr (snd (snd (putrequest P h self w meth url x))) (next_recorder w) =
           (real_url (host self) (port self) (default_port self) url, meth)"
  using assms
  by (simp add: putrequest_active Let_def except_Exception_def recorder_exit_def close_span_def called_def
      split: prod.splits sum.splits option.splits)

text \<open>
  C2. For a relative url, the URL of the span that the request phase opens is the scheme
  (\<open>https\<close> exactly when the default port is 443, otherwise \<open>http\<close>), \<open>://\<close>, the host,
  the port segment (left out exactly when the port is the connection's default port) and
  the path the caller gave.
\<close>

theorem url_reconstruction:
  assumes "integration_active h"
    and "\<not> startswith url ''http://''" and "\<not> startswith url ''https://''"
  shows "span_descr (snd (snd (putrequest P h self w meth url x))) (next_recorder w) =
           ((if default_port self = 443 then ''https'' else ''http'') @ ''://'' @ host self @
            (if port self = default_port self then [] else CHR '':'' # str_int (port self)) @ url,
            meth)
       \<and> (url_port_segment (port self) (default_port self) = [] \<longleftrightarrow> port self = default_port self)
       \<and> (url_scheme (default_port self) = ''https'' \<longleftrightarrow> default_port self = 443)"
proof -
  have "real_url (host self) (port self) (default_port self) url =
      (if default_port self = 443 then ''https'' else ''http'') @ ''://'' @ host self @
            (if port self = default_port self then [] else CHR '':'' # str_int (port self)) @ url"
    using assms(2,3) by (simp add: real_url_def url_scheme_eq url_port_segment_eq)
  then have "span_descr (snd (snd (putrequest P h self w meth url x))) (next_recorder w) =
           ((if default_port self = 443 then ''https'' else ''http'') @ ''://'' @ host self @
            (if port self = default_port self then [] else CHR '':'' # str_int (port self)) @ url,
            meth)"
    by (simp only: putrequest_span_descr [OF assms(1)])
  moreover have "url_port_segment (port self) (default_port self) = [] \<longleftrightarrow> port self = default_port self"
    by (simp add: url_port_segment_eq)
  moreover have "url_scheme (default_port self) = ''https'' \<longleftrightarrow> default_port self = 443"
    by (simp add: url_scheme_eq)
  ultimately show ?thesis by blast
qed

theorem url_reconstruction_witness:
  "integration_active ex_hub \<and> \<not> startswith ''/path'' ''http://'' \<and> \<not> startswith ''/path'' ''https://''
   \<and> span_descr (snd (snd (putrequest ex_primitives ex_hub (ex_conn\<lparr>port := 8080\<rparr>) ex_world
         ''GET'' ''/path'' False))) 0 = (''http://example.com:8080/path'', ''GET'')"
  using url_reconstruction [where h = ex_hub and url = "''/path''" and P = ex_primitives
      and self = "ex_conn\<lparr>port := 8080\<rparr>" and w = ex_world and meth = "''GET''" and x = False]
  by (simp add: ex_hub_def ex_conn_def ex_world_def startswith_def str_int_def digit_char_def)

text \<open>
  C10. A url that already starts with \<open>http://\<close> or \<open>https://\<close> is the span's URL as it
  is, whatever the host, the port and the default port of the connection.
\<close>

theorem absolute_url_verbatim:
  assumes "integration_active h"
    and "startswith url ''http://'' \<or> startswith url ''https://''"
  shows "real_url (host self) (port self) (default_port self) url = url
       \<and> span_descr (snd (snd (putrequest P h self w meth url x))) (next_recorder w) = (url, meth)"
proof -
  have "real_url (host self) (port self) (default_port self) url = url"
    using assms(2) by (auto simp: real_url_def)
  then show ?thesis by (simp only: putrequest_span_descr [OF assms(1)])
qed

theorem absolute_url_verbatim_witness:
  "integration_active ex_hub
   \<and> (startswith ''https://other.org:8443/x'' ''http://'' \<or> startswith ''https://other.org:8443/x'' ''https://'')
   \<and> real_url ''example.com'' 80 80 ''https://other.org:8443/x'' = ''https://other.org:8443/x''
   \<and> span_descr (snd (snd (putrequest ex_primitives ex_hub ex_conn ex_world
         ''GET'' ''https://other.org:8443/x'' False))) 0 = (''https://other.org:8443/x'', ''GET'')"
  using absolute_url_verbatim [where h = ex_hub and url = "''https://other.org:8443/x''"
      and P = ex_primitives and self = ex_conn and w = ex_world and meth = "''GET''" and x = False]
  by (simp add: ex_hub_def ex_conn_def ex_world_def startswith_def)

section \<open>Facts about the HTTP call interceptor\<close>

lemma put_headers_events:
  "put_headers P hs c = (r, c', evs) \<Longrightarrow> list_all is_putheader evs"
  by (induction hs arbitrary: c r c' evs) (auto split: prod.splits option.splits)

lemma getresponse_without_recorder:
  "sentrysdk_recorder self = None \<Longrightarrow> getresponse P self w x = call_real_getresponse P self w x"
  by (simp add: getresponse_def)

lemma after_request_eq:
  "after_request =
     (ex_conn\<lparr>native := 1, sentrysdk_recorder := Some 0, sentrysdk_data_dict := Some 0\<rparr>,
      ex_world\<lparr>span_descr := (span_descr ex_world)(0 := (''http://example.com/path'', ''GET'')),
               data_dicts := (data_dicts ex_world)(0 := []),
               next_recorder := 1,
               span_open := (span_open ex_world)(0 := True),
               events := [SpanOpened 0, Called_real_putrequest ''GET'' ''/path'',
                          Called_putheader ''sentry-trace'' ''abc'']\<rparr>)"
  by (simp add: after_request_def putrequest_active ex_hub_def ex_primitives_def ex_conn_def
      ex_world_def called_def real_url_def startswith_def url_scheme_eq url_port_segment_eq)

lemma after_request_facts:
  "sentrysdk_recorder (fst after_request) = Some 0"
  "sentrysdk_data_dict (fst after_request) = Some 0"
  "native (fst after_request) = 1"
  "span_open (snd after_request) 0"
  "events (snd after_request) =
     [SpanOpened 0, Called_real_putrequest ''GET'' ''/path'',
      Called_putheader ''sentry-trace'' ''abc'']"
  by (simp_all add: after_request_eq ex_conn_def ex_world_def)

lemma putrequest_success_attaches:
  assumes "integration_active h"
    and "putrequest P h self w meth url x = (Inr rv, self', w')"
  shows "sentrysdk_recorder self' = Some (next_recorder w)
       \<and> sentrysdk_data_dict self' = Some (next_recorder w)"
  using assms
  by (auto simp: putrequest_active Let_def split: prod.splits sum.splits option.splits)

lemma putrequest_success_opens:
  assumes "integration_active h"
    and "putrequest P h self w meth url x = (Inr rv, self', w')"
  shows "span_open w' (next_recorder w)"
  using assms
  by (auto simp: putrequest_active Let_def called_def split: prod.splits sum.splits option.splits)

text \<open>
  C3, as amended. With the integration active, the request phase opens the span before it
  calls the unwrapped primitive. If the unwrapped call or the header injection raises
  \<open>e\<close>, the same \<open>e\<close> reaches the caller and the handle's recorder and data-dictionary
  attributes are what they were before the call; the span is closed with \<open>e\<close> when \<open>e\<close>
  is an instance of \<^verbatim>\<open>Exception\<close>; and on a handle that carried no recorder before the
  call, a later response-phase call is the unwrapped call and nothing else.
\<close>

theorem putrequest_failure:
  assumes "integration_active h"
  shows "(case putrequest P h self w meth url x of
            (out, self', w') \<Rightarrow>
              take (length (events w) + 2) (events w') =
                events w @ [SpanOpened (next_recorder w), Called_real_putrequest meth url]
            \<and> (\<forall>e. request_raises P h (native self) meth url x = Some e \<longrightarrow>
                  out = Inl e
                \<and> sentrysdk_recorder self' = sentrysdk_recorder self
                \<and> sentrysdk_data_dict self' = sentrysdk_data_dict self
                \<and> (\<exists>evs. list_all is_putheader evs
                     \<and> events w' =
                          events w @ [SpanOpened (next_recorder w), Called_real_putrequest meth url]
                            @ evs
                            @ (if isinstance_Exception e
                               then [SpanClosed (next_recorder w) (Some e)] else []))
                \<and> (sentrysdk_recorder self = None \<longrightarrow>
                     (\<forall>w'' y. getresponse P self' w'' y = call_real_getresponse P self' w'' y))))"
proof (cases "real_putrequest P (native self) meth url x")
  case (Pair out0 c1)
  show ?thesis
  proof (cases out0)
    case (Inl e)
    with Pair assms show ?thesis
      by (simp add: putrequest_active request_raises_def Let_def except_Exception_def
          recorder_exit_def close_span_def getresponse_without_recorder)
  next
    case (Inr rv)
    obtain r c2 evs where ph: "put_headers P (trace_propagation_headers h) c1 = (r, c2, evs)"
      by (cases "put_headers P (trace_propagation_headers h) c1") auto
    have evs: "list_all is_putheader evs"
      using ph by (rule put_headers_events)
    show ?thesis
    proof (cases r)
      case None
      with Pair Inr ph assms show ?thesis
        by (simp add: putrequest_active request_raises_def Let_def called_def)
    next
      case (Some e)
      have "\<exists>evs'. list_all is_putheader evs' \<and> evs = evs'"
        using evs by simp
      with Pair Inr ph Some assms show ?thesis
        by (simp add: putrequest_active request_raises_def Let_def called_def except_Exception_def
          recorder_exit_def close_span_def getresponse_without_recorder)
    qed
  qed
qed

text \<open>
  Where C3 fails as stated. A \<^verbatim>\<open>KeyboardInterrupt\<close> raised by the unwrapped call passes
  \<^verbatim>\<open>except Exception\<close> by: it reaches the caller, and the span that was opened stays open.
\<close>

theorem putrequest_failure_counterexample:
  "request_raises interrupted_primitives ex_hub (native ex_conn) ''GET'' ''/path'' False
     = Some KeyboardInterrupt
   \<and> fst (putrequest interrupted_primitives ex_hub ex_conn ex_world ''GET'' ''/path'' False)
     = Inl KeyboardInterrupt
   \<and> events (snd (snd (putrequest interrupted_primitives ex_hub ex_conn ex_world
         ''GET'' ''/path'' False)))
     = [SpanOpened 0, Called_real_putrequest ''GET'' ''/path'']
   \<and> span_open (snd (snd (putrequest interrupted_primitives ex_hub ex_conn ex_world
         ''GET'' ''/path'' False))) 0"
  by (simp add: request_raises_def interrupted_primitives_def
      putrequest_active ex_hub_def ex_conn_def ex_world_def except_Exception_def
      KeyboardInterrupt_def)

theorem putrequest_failure_witness:
  "integration_active ex_hub
   \<and> request_raises refusing_primitives ex_hub (native ex_conn) ''GET'' ''/path'' False
       = Some InvalidHeader
   \<and> sentrysdk_recorder ex_conn = None
   \<and> fst (putrequest refusing_primitives ex_hub ex_conn ex_world ''GET'' ''/path'' False)
       = Inl InvalidHeader
   \<and> sentrysdk_recorder (fst (snd (putrequest refusing_primitives ex_hub ex_conn ex_world
         ''GET'' ''/path'' False))) = None
   \<and> events (snd (snd (putrequest refusing_primitives ex_hub ex_conn ex_world
         ''GET'' ''/path'' False)))
       = [SpanOpened 0, Called_real_putrequest ''GET'' ''/path'',
          Called_putheader ''sentry-trace'' ''abc'', SpanClosed 0 (Some InvalidHeader)]
   \<and> getresponse refusing_primitives
         (fst (snd (putrequest refusing_primitives ex_hub ex_conn ex_world ''GET'' ''/path'' False)))
         ex_world False
       = call_real_getresponse refusing_primitives
         (fst (snd (putrequest refusing_primitives ex_hub ex_conn ex_world ''GET'' ''/path'' False)))
         ex_world False"
  using putrequest_failure [where h = ex_hub and P = refusing_primitives and self = ex_conn
      and w = ex_world and meth = "''GET''" and url = "''/path''" and x = False]
  by (simp add: request_raises_def refusing_primitives_def ex_primitives_def
      putrequest_active ex_hub_def ex_conn_def ex_world_def except_Exception_def
      InvalidHeader_def getresponse_def call_real_getresponse_def
      called_def recorder_exit_def close_span_def)

text \<open>
  C4, as amended. In the response phase on a handle that carries a recorder, a failure
  \<open>e\<close> of the unwrapped primitive is raised again unchanged in every case; an open span is
  closed with \<open>e\<close> exactly when \<open>e\<close> is an instance of \<^verbatim>\<open>Exception\<close> and not of
  \<^verbatim>\<open>TypeError\<close>. Every \<^verbatim>\<open>TypeError\<close> (the signature probe among them) and every exception
  outside \<^verbatim>\<open>Exception\<close> leaves the span as it is.
\<close>

theorem getresponse_failure:
  assumes "sentrysdk_recorder self = Some r"
    and "real_getresponse P (native self) x = (Inl e, c)"
  shows "getresponse P self w x =
           (Inl e, self\<lparr>native := c\<rparr>,
            (if isinstance_Exception e \<and> \<not> isinstance_TypeError e \<and> span_open w r
             then close_span r (Some e) (called [Called_real_getresponse] w)
             else called [Called_real_getresponse] w))"
  using assms
  by (simp add: getresponse_def call_real_getresponse_def called_def recorder_exit_def)

text \<open>
  Where C4 fails as stated: the unwrapped primitive fails with \<^verbatim>\<open>KeyboardInterrupt\<close>, which
  is no signature probe, and the open span is not closed.
\<close>

theorem getresponse_failure_counterexample:
  "sentrysdk_recorder (fst after_request) = Some 0
   \<and> span_open (snd after_request) 0
   \<and> real_getresponse interrupted_primitives (native (fst after_request)) False
       = (Inl KeyboardInterrupt, 1)
   \<and> fst (getresponse interrupted_primitives (fst after_request) (snd after_request) False)
       = Inl KeyboardInterrupt
   \<and> events (snd (snd (getresponse interrupted_primitives (fst after_request) (snd after_request)
         False)))
       = events (snd after_request) @ [Called_real_getresponse]
   \<and> span_open (snd (snd (getresponse interrupted_primitives (fst after_request)
         (snd after_request) False))) 0"
  by (simp add: after_request_eq interrupted_primitives_def getresponse_def
      call_real_getresponse_def called_def KeyboardInterrupt_def ex_conn_def ex_world_def)

theorem getresponse_failure_witness:
  "sentrysdk_recorder (fst after_request) = Some 0
   \<and> span_open (snd after_request) 0
   \<and> real_getresponse timeout_primitives (native (fst after_request)) False = (Inl socket_timeout, 1)
   \<and> real_getresponse ex_primitives (native (fst after_request)) True = (Inl buffering_TypeError, 1)
   \<and> getresponse timeout_primitives (fst after_request) (snd after_request) False
       = (Inl socket_timeout, fst after_request,
          close_span 0 (Some socket_timeout) (called [Called_real_getresponse] (snd after_request)))
   \<and> events (close_span 0 (Some socket_timeout) (called [Called_real_getresponse] (snd after_request)))
       = events (snd after_request) @ [Called_real_getresponse, SpanClosed 0 (Some socket_timeout)]
   \<and> getresponse ex_primitives (fst after_request) (snd after_request) True
       = (Inl buffering_TypeError, fst after_request,
          called [Called_real_getresponse] (snd after_request))"
proof -
  note f = after_request_facts
  have t: "real_getresponse timeout_primitives (native (fst after_request)) False
             = (Inl socket_timeout, 1)"
    by (simp add: timeout_primitives_def f)
  have b: "real_getresponse ex_primitives (native (fst after_request)) True
             = (Inl buffering_TypeError, 1)"
    by (simp add: ex_primitives_def f)
  have same: "(fst after_request)\<lparr>native := 1\<rparr> = fst after_request"
    by (simp add: after_request_eq ex_conn_def)
  have ev: "events (close_span 0 (Some socket_timeout)
                      (called [Called_real_getresponse] (snd after_request)))
       = events (snd after_request) @ [Called_real_getresponse, SpanClosed 0 (Some socket_timeout)]"
    by (simp add: close_span_def called_def)
  show ?thesis
    using getresponse_failure [OF f(1) t, of "snd after_request"]
      getresponse_failure [OF f(1) b, of "snd after_request"] f(1) f(4) t b same ev
    by (simp add: socket_timeout_def buffering_TypeError_def)
qed

lemma closes_append: "closes r (xs @ ys) = closes r xs + closes r ys"
  by (simp add: closes_def)

text \<open>One response-phase call: it closes a span only when that span is open, and then once.\<close>

lemma closes_snoc_close:
  "closes r (evs @ [SpanClosed r' outcome]) = closes r evs + (if r' = r then 1 else 0)"
  by (simp add: closes_def)

lemma closes_snoc_other: "\<not> is_close_of r ev \<Longrightarrow> closes r (evs @ [ev]) = closes r evs"
  by (simp add: closes_def)

lemma recorder_exit_closes:
  "(span_open (recorder_exit r' outcome w) r \<longrightarrow> span_open w r)
   \<and> closes r (events (recorder_exit r' outcome w)) =
       closes r (events w)
         + (if span_open w r \<and> \<not> span_open (recorder_exit r' outcome w) r then 1 else 0)"
  by (simp add: recorder_exit_def close_span_def closes_snoc_close)

lemma record_response_frame:
  "events (record_response d rv w) = events w" "span_open (record_response d rv w) = span_open w"
  by (simp_all add: record_response_def split: option.splits)

lemma called_getresponse_frame:
  "closes r (events (called [Called_real_getresponse] w)) = closes r (events w)"
  "span_open (called evs w) = span_open w"
  by (simp_all add: called_def closes_snoc_other)

lemma getresponse_closes:
  assumes "getresponse P self w x = (out, self', w')"
  shows "(span_open w' r \<longrightarrow> span_open w r)
       \<and> closes r (events w') =
           closes r (events w) + (if span_open w r \<and> \<not> span_open w' r then 1 else 0)"
proof -
  obtain out0 c where p: "real_getresponse P (native self) x = (out0, c)"
    by (cases "real_getresponse P (native self) x") auto
  let ?w1 = "called [Called_real_getresponse] w"
  have frame: "closes r (events ?w1) = closes r (events w)" "span_open ?w1 = span_open w"
    by (simp_all add: called_getresponse_frame)
  show ?thesis
  proof (cases "sentrysdk_recorder self")
    case None
    with assms p have "w' = ?w1"
      by (simp add: getresponse_def call_real_getresponse_def)
    with frame show ?thesis by simp
  next
    case (Some rid)
    show ?thesis
    proof (cases out0)
      case (Inr rv)
      let ?w2 = "record_response (sentrysdk_data_dict self) rv ?w1"
      have w': "w' = recorder_exit rid None ?w2"
        using assms p Some Inr by (simp add: getresponse_def call_real_getresponse_def)
      have "closes r (events ?w2) = closes r (events w)" "span_open ?w2 = span_open w"
        using frame by (simp_all add: record_response_frame)
      with recorder_exit_closes [of rid None ?w2 r] show ?thesis
        unfolding w' by simp
    next
      case (Inl e)
      show ?thesis
      proof (cases "isinstance_Exception e \<and> \<not> isinstance_TypeError e")
        case True
        then have w': "w' = recorder_exit rid (Some e) ?w1"
          using assms p Some Inl by (simp add: getresponse_def call_real_getresponse_def)
        from recorder_exit_closes [of rid "Some e" ?w1 r] frame show ?thesis
          unfolding w' by simp
      next
        case False
        then have "w' = ?w1"
          using assms p Some Inl
          by (auto simp: getresponse_def call_real_getresponse_def split: if_splits)
        with frame show ?thesis by simp
      qed
    qed
  qed
qed

lemma getresponse_seq_closes:
  "(span_open (snd (snd (getresponse_seq P self w xs))) r \<longrightarrow> span_open w r)
   \<and> closes r (events (snd (snd (getresponse_seq P self w xs)))) =
       closes r (events w)
         + (if span_open w r \<and> \<not> span_open (snd (snd (getresponse_seq P self w xs))) r
            then 1 else 0)"
proof (induction xs arbitrary: self w)
  case Nil
  then show ?case by simp
next
  case (Cons x xs)
  obtain out self1 w1 where g: "getresponse P self w x = (out, self1, w1)"
    by (cases "getresponse P self w x") auto
  obtain outs self2 w2 where s: "getresponse_seq P self1 w1 xs = (outs, self2, w2)"
    by (cases "getresponse_seq P self1 w1 xs") auto
  from getresponse_closes [OF g, of r]
  have a: "span_open w1 r \<longrightarrow> span_open w r"
    and b: "closes r (events w1) =
              closes r (events w) + (if span_open w r \<and> \<not> span_open w1 r then 1 else 0)"
    by simp_all
  from Cons.IH [of self1 w1] s
  have c: "span_open w2 r \<longrightarrow> span_open w1 r"
    and d: "closes r (events w2) =
              closes r (events w1) + (if span_open w1 r \<and> \<not> span_open w2 r then 1 else 0)"
    by simp_all
  have e: "snd (snd (getresponse_seq P self w (x # xs))) = w2"
    using g s by simp
  show ?case
    unfolding e using a b c d by (cases "span_open w r"; cases "span_open w1 r"; cases "span_open w2 r") simp_all
qed

text \<open>
  C5. Over any sequence of response-phase calls on a handle, a span is closed at most once
  more, and only when it is open at the start: a span that has not been closed before the
  sequence is closed at most once in all. Once it is closed, no later call of
  \<^verbatim>\<open>getresponse\<close> closes it again, whatever the handle still refers to.
\<close>

theorem closed_at_most_once:
  "closes r (events (snd (snd (getresponse_seq P self w xs))))
     \<le> closes r (events w) + (if span_open w r then 1 else 0)
   \<and> (closes r (events w) = 0 \<longrightarrow>
        closes r (events (snd (snd (getresponse_seq P self w xs)))) \<le> 1)
   \<and> (\<not> span_open w r \<longrightarrow>
        closes r (events (snd (snd (getresponse_seq P self w xs)))) = closes r (events w)
      \<and> \<not> span_open (snd (snd (getresponse_seq P self w xs))) r)"
  using getresponse_seq_closes [of P self w xs r]
  by (cases "span_open w r"; cases "span_open (snd (snd (getresponse_seq P self w xs))) r")
    simp_all

lemma after_first_exchange_facts:
  "sentrysdk_recorder (fst after_first_exchange) = Some 0"
  "native (fst after_first_exchange) = 0"
  "\<not> span_open (snd after_first_exchange) 0"
  "events (snd after_first_exchange) =
     [SpanOpened 0, Called_real_putrequest ''GET'' ''/path'',
      Called_putheader ''sentry-trace'' ''abc'', Called_real_getresponse, SpanClosed 0 None]"
  by (simp_all add: after_first_exchange_def after_request_eq getresponse_def
      call_real_getresponse_def ex_primitives_def ex_conn_def ex_world_def called_def
      record_response_def recorder_exit_def close_span_def)

theorem closed_at_most_once_witness:
  "span_open (snd after_request) 0
   \<and> closes 0 (events (snd after_request)) = 0
   \<and> fst (getresponse_seq ex_primitives (fst after_request) (snd after_request) [True, False, False])
       = [Inl buffering_TypeError, Inr ex_response, Inl ResponseNotReady]
   \<and> closes 0 (events (snd (snd (getresponse_seq ex_primitives (fst after_request)
         (snd after_request) [True, False, False])))) = 1
   \<and> \<not> span_open (snd after_first_exchange) 0
   \<and> sentrysdk_recorder (fst after_first_exchange) = Some 0
   \<and> closes 0 (events (snd after_first_exchange)) = 1
   \<and> fst (getresponse_seq ex_primitives (fst after_first_exchange) (snd after_first_exchange)
         [False]) = [Inl ResponseNotReady]
   \<and> closes 0 (events (snd (snd (getresponse_seq ex_primitives (fst after_first_exchange)
         (snd after_first_exchange) [False])))) = 1"
proof -
  note f = after_request_facts
  note g = after_first_exchange_facts
  have z: "closes 0 (events (snd after_request)) = 0"
    by (simp add: f closes_def)
  have o: "closes 0 (events (snd after_first_exchange)) = 1"
    by (simp add: g closes_def)
  have outs: "fst (getresponse_seq ex_primitives (fst after_request) (snd after_request)
                [True, False, False])
       = [Inl buffering_TypeError, Inr ex_response, Inl ResponseNotReady]"
    by (simp add: after_request_eq getresponse_def call_real_getresponse_def ex_primitives_def
      called_def recorder_exit_def close_span_def record_response_def ex_conn_def ex_world_def
      buffering_TypeError_def ResponseNotReady_def)
  have once: "closes 0 (events (snd (snd (getresponse_seq ex_primitives (fst after_request)
         (snd after_request) [True, False, False])))) = 1"
    by (simp add: after_request_eq getresponse_def call_real_getresponse_def ex_primitives_def
      called_def recorder_exit_def close_span_def record_response_def ex_conn_def ex_world_def
      buffering_TypeError_def ResponseNotReady_def closes_def)
  have outs2: "fst (getresponse_seq ex_primitives (fst after_first_exchange)
                 (snd after_first_exchange) [False]) = [Inl ResponseNotReady]"
    by (simp add: getresponse_def call_real_getresponse_def ex_primitives_def g
      recorder_exit_def ResponseNotReady_def called_def split: prod.splits)
  have inert: "closes 0 (events (snd (snd (getresponse_seq ex_primitives (fst after_first_exchange)
         (snd after_first_exchange) [False])))) = 1"
    using closed_at_most_once [of 0 ex_primitives "fst after_first_exchange"
        "snd after_first_exchange" "[False]"] g(3) o
    by simp
  show ?thesis
    using f(4) z outs once g(3) g(1) o outs2 inert by (intro conjI)
qed

text \<open>
  C6. When the unwrapped primitive returns a response on a handle that carries a recorder
  and its data dictionary (as a request phase that succeeded leaves it, with the span
  open, see \<open>putrequest_success_attaches\<close> and \<open>putrequest_success_opens\<close>), the
  response object, its status and its reason are in the data dictionary afterwards, the
  response is returned, and the open span is closed with success, whatever the status is.
\<close>

theorem getresponse_success:
  assumes "sentrysdk_recorder self = Some r"
    and "sentrysdk_data_dict self = Some d"
    and "real_getresponse P (native self) x = (Inr rv, c)"
  shows "fst (getresponse P self w x) = Inr rv
       \<and> map_of (data_dicts (snd (snd (getresponse P self w x))) d) ''httplib_response''
           = Some (DResponse rv)
       \<and> map_of (data_dicts (snd (snd (getresponse P self w x))) d) ''status_code''
           = Some (DInt (status rv))
       \<and> map_of (data_dicts (snd (snd (getresponse P self w x))) d) ''reason''
           = Some (DStr (reason rv))
       \<and> events (snd (snd (getresponse P self w x)))
           = events w @ Called_real_getresponse # (if span_open w r then [SpanClosed r None] else [])"
  using assms
  by (simp add: getresponse_def call_real_getresponse_def called_def recorder_exit_def
      close_span_def record_response_def update_conv')

theorem getresponse_success_witness:
  "sentrysdk_recorder (fst after_request) = Some 0
   \<and> sentrysdk_data_dict (fst after_request) = Some 0
   \<and> span_open (snd after_request) 0
   \<and> real_getresponse ex_primitives (native (fst after_request)) False = (Inr ex_response, 0)
   \<and> status ex_response = 404
   \<and> fst (getresponse ex_primitives (fst after_request) (snd after_request) False) = Inr ex_response
   \<and> map_of (data_dicts (snd (snd (getresponse ex_primitives (fst after_request)
         (snd after_request) False))) 0) ''status_code'' = Some (DInt 404)
   \<and> map_of (data_dicts (snd (snd (getresponse ex_primitives (fst after_request)
         (snd after_request) False))) 0) ''reason'' = Some (DStr ''Not Found'')
   \<and> events (snd (snd (getresponse ex_primitives (fst after_request) (snd after_request) False)))
       = [SpanOpened 0, Called_real_putrequest ''GET'' ''/path'',
          Called_putheader ''sentry-trace'' ''abc'', Called_real_getresponse, SpanClosed 0 None]"
proof -
  note f = after_request_facts
  have g: "real_getresponse ex_primitives (native (fst after_request)) False = (Inr ex_response, 0)"
    by (simp add: f ex_primitives_def)
  show ?thesis
    using getresponse_success [OF f(1) f(2) g, of "snd after_request"] f g
    by (simp add: ex_response_def)
qed

section \<open>Facts about the argument extractor and the process spawn interceptor\<close>

lemma init_argument_read_only:
  "init_argument a kw name position None h =
     Inr (case supplied a kw name position of Some cur \<Rightarrow> cur | None \<Rightarrow> PNone, a, kw, h)"
  by (auto simp: init_argument_def supplied_def apply_callback_def update_triv split: option.splits)

lemma env_items_Cons:
  "env_items uu ((k, v) # hs) d = env_items uu hs (AList.update (PStr (env_key uu k)) (PStr v) d)"
  by (simp add: env_items_def)

lemma inject_headers_env_set:
  "inject_headers uu hs (PDict r) a kw h =
     Inr (PDict r, a, kw, h\<lparr>objs := (objs h)(r := env_items uu hs (objs h r))\<rparr>)"
proof (induction hs arbitrary: h)
  case Nil
  then show ?case by (simp add: env_items_def)
next
  case (Cons x hs)
  obtain k v where x: "x = (k, v)" by (cases x)
  show ?case
    by (simp add: x Cons.IH setitem_def env_items_Cons cong: if_cong)
qed

lemma env_default_copies:
  assumes "env_well_formed h given"
  shows "env_default (case given of Some cur \<Rightarrow> cur | None \<Rightarrow> PNone) h
           = Inr (dict_copy (env_source h given) h)"
  using assms
  by (auto simp: env_default_def dict_of_def env_well_formed_def env_source_def
      split: option.splits pyval.splits)

lemma supplied_cases:
  "supplied a kw name position =
     (if map_of kw name = None \<and> position < length a then Some (a ! position) else map_of kw name)"
  by (auto simp: supplied_def split: option.splits)

lemma init_argument_env:
  assumes "env_well_formed h (supplied a kw ''env'' 10)"
  shows "init_argument a kw ''env'' 10 (Some env_default) h =
           Inr (PDict (next_ref h),
                (if map_of kw ''env'' = None \<and> 10 < length a then a[10 := PDict (next_ref h)] else a),
                (if map_of kw ''env'' = None \<and> 10 < length a then kw
                 else AList.update ''env'' (PDict (next_ref h)) kw),
                snd (dict_copy (env_source h (supplied a kw ''env'' 10)) h))"
proof (cases "map_of kw ''env''")
  case None
  show ?thesis
  proof (cases "10 < length a")
    case True
    with None env_default_copies [OF assms] show ?thesis
      by (simp add: init_argument_def supplied_def apply_callback_def dict_copy_def new_dict_def)
  next
    case False
    with None env_default_copies [OF assms] show ?thesis
      by (simp add: init_argument_def supplied_def apply_callback_def dict_copy_def new_dict_def)
  qed
next
  case (Some cur)
  with env_default_copies [OF assms] show ?thesis
    by (simp add: init_argument_def supplied_def apply_callback_def dict_copy_def new_dict_def)
qed

lemma update_absent: "map_of al k = None \<Longrightarrow> AList.update k v al = al @ [(k, v)]"
  by (induction al) (auto split: if_splits)

lemma map_of_update_keys: "map_of al k = Some c \<Longrightarrow> map fst (AList.update k v al) = map fst al"
  by (induction al) (auto split: if_splits)

text \<open>
  C8. Let the callback, or the identity when there is none, applied to what the caller
  supplied (\<^verbatim>\<open>None\<close> when the argument is absent) return \<open>rv\<close>. Then the extractor returns
  \<open>rv\<close>, and: without a callback nothing is changed, in every call shape; for a keyword
  argument \<open>rv\<close> is written back under its name when it is not \<^verbatim>\<open>None\<close>; for a positional
  argument it is written back at its position when it is not \<^verbatim>\<open>None\<close>; for an absent
  argument it is added as a new keyword argument when it is not \<^verbatim>\<open>None\<close>. Non-empty is read
  as the source tests it: \<^verbatim>\<open>is not None\<close>.
\<close>

theorem init_argument_semantics:
  assumes "apply_callback cb (case supplied args kwargs name position of Some cur \<Rightarrow> cur | None \<Rightarrow> PNone) h
             = Inr (rv, h')"
  shows "\<exists>args' kwargs'.
           init_argument args kwargs name position cb h = Inr (rv, args', kwargs', h')
         \<and> (cb = None \<longrightarrow> args' = args \<and> kwargs' = kwargs \<and> h' = h
              \<and> rv = (case supplied args kwargs name position of Some cur \<Rightarrow> cur | None \<Rightarrow> PNone))
         \<and> (map_of kwargs name \<noteq> None \<longrightarrow>
               args' = args
             \<and> kwargs' = (if rv \<noteq> PNone then AList.update name rv kwargs else kwargs)
             \<and> map fst kwargs' = map fst kwargs
             \<and> map_of kwargs' = (if rv \<noteq> PNone then (map_of kwargs)(name \<mapsto> rv) else map_of kwargs))
         \<and> (map_of kwargs name = None \<and> position < length args \<longrightarrow>
               kwargs' = kwargs
             \<and> args' = (if rv \<noteq> PNone then args[position := rv] else args))
         \<and> (map_of kwargs name = None \<and> \<not> position < length args \<longrightarrow>
               args' = args
             \<and> kwargs' = (if rv \<noteq> PNone then kwargs @ [(name, rv)] else kwargs))"
proof (cases "map_of kwargs name")
  case None
  show ?thesis
  proof (cases "position < length args")
    case True
    with None assms show ?thesis
      by (cases cb) (auto simp: init_argument_def supplied_def apply_callback_def)
  next
    case False
    with None assms show ?thesis
      by (cases cb) (auto simp: init_argument_def supplied_def apply_callback_def update_absent)
  qed
next
  case (Some cur)
  with assms show ?thesis
    by (cases cb)
      (auto simp: init_argument_def supplied_def apply_callback_def update_triv update_conv'
        map_of_update_keys)
qed

theorem init_argument_semantics_witness:
  "apply_callback (Some env_default)
     (case supplied ex_args ex_kwargs ''env'' 10 of Some cur \<Rightarrow> cur | None \<Rightarrow> PNone) ex_heap
     = Inr (PDict 2, snd (dict_copy 0 ex_heap))
   \<and> init_argument ex_args ex_kwargs ''env'' 10 (Some env_default) ex_heap
     = Inr (PDict 2, ex_args, ex_kwargs @ [(''env'', PDict 2)], snd (dict_copy 0 ex_heap))
   \<and> objs (snd (dict_copy 0 ex_heap)) 2 = [(PStr ''PATH'', PStr ''/usr/bin'')]
   \<and> apply_callback (Some env_default)
       (case supplied ex_args [(''env'', PDict 1)] ''env'' 10 of Some cur \<Rightarrow> cur | None \<Rightarrow> PNone)
       ex_heap
     = Inr (PDict 2, snd (dict_copy 1 ex_heap))
   \<and> init_argument ex_args [(''env'', PDict 1)] ''env'' 10 (Some env_default) ex_heap
     = Inr (PDict 2, ex_args, [(''env'', PDict 2)], snd (dict_copy 1 ex_heap))
   \<and> apply_callback None
       (case supplied ex_args ex_kwargs ''args'' 0 of Some cur \<Rightarrow> cur | None \<Rightarrow> PNone) ex_heap
     = Inr (PList [PStr ''ls'', PStr ''-la''], ex_heap)
   \<and> init_argument ex_args ex_kwargs ''args'' 0 None ex_heap
     = Inr (PList [PStr ''ls'', PStr ''-la''], ex_args, ex_kwargs, ex_heap)"
proof -
  have cb: "apply_callback (Some env_default)
     (case supplied ex_args ex_kwargs ''env'' 10 of Some cur \<Rightarrow> cur | None \<Rightarrow> PNone) ex_heap
     = Inr (PDict 2, snd (dict_copy 0 ex_heap))"
    by (simp add: apply_callback_def supplied_def ex_args_def ex_kwargs_def env_default_def
        dict_of_def dict_copy_def new_dict_def ex_heap_def)
  have absent: "map_of ex_kwargs ''env'' = None" "\<not> 10 < length ex_args"
    by (simp_all add: ex_kwargs_def ex_args_def)
  have r1: "init_argument ex_args ex_kwargs ''env'' 10 (Some env_default) ex_heap
     = Inr (PDict 2, ex_args, ex_kwargs @ [(''env'', PDict 2)], snd (dict_copy 0 ex_heap))"
    using init_argument_semantics [OF cb] absent by auto
  have o: "objs (snd (dict_copy 0 ex_heap)) 2 = [(PStr ''PATH'', PStr ''/usr/bin'')]"
    by (simp add: dict_copy_def new_dict_def ex_heap_def)
  have cb2: "apply_callback (Some env_default)
       (case supplied ex_args [(''env'', PDict 1)] ''env'' 10 of Some cur \<Rightarrow> cur | None \<Rightarrow> PNone)
       ex_heap
     = Inr (PDict 2, snd (dict_copy 1 ex_heap))"
    by (simp add: apply_callback_def supplied_def env_default_def dict_of_def dict_copy_def
        new_dict_def ex_heap_def)
  have r2: "init_argument ex_args [(''env'', PDict 1)] ''env'' 10 (Some env_default) ex_heap
     = Inr (PDict 2, ex_args, [(''env'', PDict 2)], snd (dict_copy 1 ex_heap))"
    using init_argument_semantics [OF cb2] by auto
  have cb3: "apply_callback None
       (case supplied ex_args ex_kwargs ''args'' 0 of Some cur \<Rightarrow> cur | None \<Rightarrow> PNone) ex_heap
     = Inr (PList [PStr ''ls'', PStr ''-la''], ex_heap)"
    by (simp add: apply_callback_def supplied_def ex_args_def ex_kwargs_def)
  have r3: "init_argument ex_args ex_kwargs ''args'' 0 None ex_heap
     = Inr (PList [PStr ''ls'', PStr ''-la''], ex_args, ex_kwargs, ex_heap)"
    using init_argument_semantics [OF cb3] by auto
  show ?thesis
    using cb r1 o cb2 r2 cb3 r3 by (intro conjI)
qed

lemma popen_no_headers:
  assumes "trace_propagation_headers hb = []"
  shows "sentry_patched_popen_init uu hb a kw h = Inr (a, kw, h)"
  using assms by (simp add: sentry_patched_popen_init_def init_argument_read_only)

text \<open>
  With a header to pass on and an \<^verbatim>\<open>env\<close> that is absent, \<^verbatim>\<open>None\<close> or a dictionary, the
  constructor gets a new dictionary as \<^verbatim>\<open>env\<close>: a copy of the one that \<open>env_source\<close>
  names, with one variable set per header; no other object of the heap changes.
\<close>

lemma popen_with_headers:
  assumes "integration_active hb" and "trace_propagation_headers hb \<noteq> []"
    and "env_well_formed h (supplied a kw ''env'' 10)"
  shows "sentry_patched_popen_init uu hb a kw h =
           Inr ((if map_of kw ''env'' = None \<and> 10 < length a then a[10 := PDict (next_ref h)] else a),
                (if map_of kw ''env'' = None \<and> 10 < length a then kw
                 else AList.update ''env'' (PDict (next_ref h)) kw),
                h\<lparr>objs := (objs h)(next_ref h :=
                       env_items uu (trace_propagation_headers hb)
                         (objs h (env_source h (supplied a kw ''env'' 10)))),
                  next_ref := Suc (next_ref h)\<rparr>)"
proof -
  obtain k v hs where hs: "trace_propagation_headers hb = (k, v) # hs"
    using assms(2) by (cases "trace_propagation_headers hb") auto
  show ?thesis
    using assms(1)
    by (simp add: sentry_patched_popen_init_def init_argument_read_only hs
        init_argument_env [OF assms(3)] inject_headers_env_set setitem_def dict_copy_def
        new_dict_def env_items_Cons cong: if_cong)
qed

lemma env_key_example: "env_key uu ''sentry-trace'' = ''SUBPROCESS_SENTRY_TRACE''"
  by (simp add: env_key_def upper_def is_ascii_def upper_char_def replace_char_def)

text \<open>
  C7. With no propagation header the constructor is called with the caller's arguments
  as they are (\<open>popen_no_headers\<close>), and with a header and a non-empty dictionary as
  \<^verbatim>\<open>env\<close> it gets a copy of that dictionary with the variables added
  (\<open>popen_with_headers\<close>). But when the caller passes an empty dictionary,
  \<^verbatim>\<open>Popen(["ls", "-la"], env={})\<close>, and there is a header \<open>sentry-trace: abc\<close>, then
  \<^verbatim>\<open>x or os.environ\<close> takes the empty dictionary for a missing one: the child's
  environment is a copy of \<^verbatim>\<open>os.environ\<close> with the variable added, not a copy of the
  caller's mapping.
\<close>

theorem popen_empty_env_inherits_environ:
  "integration_active ex_hub
   \<and> trace_propagation_headers ex_hub = [(''sentry-trace'', ''abc'')]
   \<and> objs empty_env_heap 2 = []
   \<and> objs empty_env_heap (os_environ empty_env_heap) = [(PStr ''PATH'', PStr ''/usr/bin'')]
   \<and> (case sentry_patched_popen_init no_unicode ex_hub ex_args [(''env'', PDict 2)] empty_env_heap of
         Inl e \<Rightarrow> False
       | Inr (a, kw, h') \<Rightarrow>
           a = ex_args
         \<and> kw = [(''env'', PDict 3)]
         \<and> objs h' 3 = [(PStr ''PATH'', PStr ''/usr/bin''),
                        (PStr ''SUBPROCESS_SENTRY_TRACE'', PStr ''abc'')]
         \<and> objs h' 2 = []
         \<and> objs h' 0 = [(PStr ''PATH'', PStr ''/usr/bin'')])"
proof -
  have active: "integration_active ex_hub"
    and hs: "trace_propagation_headers ex_hub \<noteq> []"
    and hd: "trace_propagation_headers ex_hub = [(''sentry-trace'', ''abc'')]"
    by (simp_all add: ex_hub_def)
  have given: "supplied ex_args [(''env'', PDict 2)] ''env'' 10 = Some (PDict 2)"
    by (simp add: supplied_def)
  have heap: "objs empty_env_heap 2 = []" "os_environ empty_env_heap = 0"
    "objs empty_env_heap 0 = [(PStr ''PATH'', PStr ''/usr/bin'')]" "next_ref empty_env_heap = 3"
    by (simp_all add: empty_env_heap_def)
  have wf: "env_well_formed empty_env_heap (supplied ex_args [(''env'', PDict 2)] ''env'' 10)"
    unfolding env_well_formed_def given by (simp add: heap)
  have src: "env_source empty_env_heap (supplied ex_args [(''env'', PDict 2)] ''env'' 10) = 0"
    unfolding env_source_def given by (simp add: heap)
  have items: "env_items no_unicode [(''sentry-trace'', ''abc'')] [(PStr ''PATH'', PStr ''/usr/bin'')]
      = [(PStr ''PATH'', PStr ''/usr/bin''), (PStr ''SUBPROCESS_SENTRY_TRACE'', PStr ''abc'')]"
    by (simp add: env_items_def env_key_example)
  show ?thesis
    unfolding popen_with_headers [OF active hs wf] src hd
    by (simp add: active heap items)
qed

text \<open>On a dictionary of strings the loop writes what \<open>environment_pairs\<close> says.\<close>

lemma update_str_items:
  "AList.update (PStr k) (PStr v) (str_items env) = str_items (AList.update k v env)"
  by (induction env) (auto simp: str_items_def)

lemma env_items_str_items:
  "env_items uu hs (str_items env) = str_items (environment_pairs uu hs env)"
  by (induction hs arbitrary: env)
    (auto simp: env_items_def environment_pairs_def update_str_items)

section \<open>Facts about the trace context codec\<close>

lemma upper_char_ascii: "is_ascii c \<Longrightarrow> is_ascii (upper_char c)"
  by (simp add: upper_char_def is_ascii_def)

lemma char_roundtrip:
  assumes "c \<noteq> CHR ''_''" and "c \<notin> set ''ABCDEFGHIJKLMNOPQRSTUVWXYZ''"
  shows "lower_char ((\<lambda>c. if c = CHR ''_'' then CHR ''-'' else c)
           ((\<lambda>c. if c = CHR ''-'' then CHR ''_'' else c) (upper_char c))) = c"
  using assms
  by (simp add: upper_char_def lower_char_def)

lemma canonical_name_ascii: "canonical_name k \<Longrightarrow> list_all is_ascii k"
  by (induction k) (simp_all add: canonical_name_def)

lemma env_key_canonical:
  assumes "canonical_name k"
  shows "env_key uu k = ''SUBPROCESS_'' @ replace_char (CHR ''-'') (CHR ''_'') (map upper_char k)"
  using canonical_name_ascii [OF assms] by (simp add: env_key_def upper_def)

lemma encoded_ascii:
  assumes "list_all is_ascii k"
  shows "list_all is_ascii
           (replace_char (CHR ''_'') (CHR ''-'') (replace_char (CHR ''-'') (CHR ''_'') (map upper_char k)))"
  using assms
  by (induction k) (simp_all add: replace_char_def upper_char_ascii, simp_all add: is_ascii_def)

lemma name_roundtrip:
  assumes "canonical_name k"
  shows "header_name ul (drop (length ''SUBPROCESS_'') (env_key uu k)) = k"
proof -
  have "map (\<lambda>c. lower_char ((\<lambda>c. if c = CHR ''_'' then CHR ''-'' else c)
           ((\<lambda>c. if c = CHR ''-'' then CHR ''_'' else c) (upper_char c)))) k = k"
    using assms
    by (induction k) (simp_all add: canonical_name_def char_roundtrip del: set_simps)
  then have "map lower_char
      (replace_char (CHR ''_'') (CHR ''-'') (replace_char (CHR ''-'') (CHR ''_'') (map upper_char k)))
      = k"
    by (simp add: replace_char_def comp_def)
  moreover have "drop (length ''SUBPROCESS_'') (env_key uu k)
      = replace_char (CHR ''-'') (CHR ''_'') (map upper_char k)"
    by (simp add: env_key_canonical [OF assms])
  ultimately show ?thesis
    using encoded_ascii [OF canonical_name_ascii [OF assms]]
    by (simp only: header_name_def lower_def if_True)
qed

lemma env_key_prefix: "startswith (env_key uu k) ''SUBPROCESS_''"
  by (simp add: startswith_def env_key_def)

lemma env_key_inj:
  assumes "canonical_name k" and "canonical_name k'" and "env_key uu k = env_key uu k'"
  shows "k = k'"
  using name_roundtrip [OF assms(1), where ul = uu and uu = uu]
    name_roundtrip [OF assms(2), where ul = uu and uu = uu] assms(3)
  by simp

lemma environment_pairs_Cons:
  "environment_pairs uu ((k, v) # hs) env =
     environment_pairs uu hs (AList.update (env_key uu k) v env)"
  by (simp add: environment_pairs_def)

lemma environment_pairs_append:
  assumes "distinct (map fst hs)" and "list_all canonical_name (map fst hs)"
    and "\<forall>k \<in> set (map fst hs). env_key uu k \<notin> fst ` set env"
  shows "environment_pairs uu hs env = env @ map (\<lambda>(k, v). (env_key uu k, v)) hs"
  using assms
proof (induction hs arbitrary: env)
  case Nil
  then show ?case by (simp add: environment_pairs_def)
next
  case (Cons x hs)
  obtain k v where x: "x = (k, v)" by (cases x)
  have absent: "map_of env (env_key uu k) = None"
    using Cons.prems(3) by (simp add: x map_of_eq_None_iff)
  have "\<forall>k' \<in> set (map fst hs). env_key uu k' \<notin> fst ` set (env @ [(env_key uu k, v)])"
  proof
    fix k' assume k': "k' \<in> set (map fst hs)"
    then have "k' \<noteq> k" using Cons.prems(1) by (auto simp: x)
    moreover have "canonical_name k'" "canonical_name k"
      using Cons.prems(2) k' by (auto simp: x list_all_iff)
    ultimately have "env_key uu k' \<noteq> env_key uu k"
      using env_key_inj by blast
    moreover have "env_key uu k' \<notin> fst ` set env"
      using Cons.prems(3) k' by auto
    ultimately show "env_key uu k' \<notin> fst ` set (env @ [(env_key uu k, v)])"
      by auto
  qed
  moreover have "distinct (map fst hs)" "list_all canonical_name (map fst hs)"
    using Cons.prems(1,2) by (simp_all add: x)
  ultimately have "environment_pairs uu hs (env @ [(env_key uu k, v)]) =
      (env @ [(env_key uu k, v)]) @ map (\<lambda>(k, v). (env_key uu k, v)) hs"
    by (rule Cons.IH [rotated 2])
  then show ?case
    by (simp add: x environment_pairs_Cons update_absent [OF absent])
qed

lemma from_environment_encoded:
  assumes "list_all canonical_name (map fst hs)"
    and "\<forall>k \<in> fst ` set env. \<not> startswith k ''SUBPROCESS_''"
  shows "from_environment ul ''SUBPROCESS_'' (env @ map (\<lambda>(k, v). (env_key uu k, v)) hs) = hs"
proof -
  have "filter (\<lambda>(k, v). startswith k ''SUBPROCESS_'') env = []"
    using assms(2) by (auto simp: filter_empty_conv)
  moreover have "filter (\<lambda>(k, v). startswith k ''SUBPROCESS_'') (map (\<lambda>(k, v). (env_key uu k, v)) hs)
      = map (\<lambda>(k, v). (env_key uu k, v)) hs"
    by (induction hs) (auto simp: env_key_prefix)
  moreover have "map (\<lambda>(k, v). (header_name ul (drop (length ''SUBPROCESS_'') k), v))
      (map (\<lambda>(k, v). (env_key uu k, v)) hs) = hs"
    using assms(1)
    by (induction hs) (auto simp: name_roundtrip simp del: list.size)
  ultimately show ?thesis
    by (simp only: from_environment_def filter_append append_Nil)
qed

text \<open>
  C1, as amended. For a sequence of header pairs whose names are pairwise different, are
  ASCII and hold no upper-case letter and no underscore, each name is encoded into one
  environment variable, named by \<open>SUBPROCESS_\<close> followed by the name in upper case with
  dashes as underscores, and decoding the variables with that prefix gives the pairs
  back, also when they were written into an environment that had no variable with the
  prefix.
\<close>

theorem environment_roundtrip:
  assumes "distinct (map fst H)" and "list_all canonical_name (map fst H)"
  shows "from_environment ul ''SUBPROCESS_'' (to_environment_pairs uu H) = H
       \<and> map fst (to_environment_pairs uu H) =
           map (\<lambda>k. ''SUBPROCESS_'' @ replace_char (CHR ''-'') (CHR ''_'') (upper uu k)) (map fst H)
       \<and> (\<forall>env. list_all (\<lambda>(k, v). \<not> startswith k ''SUBPROCESS_'') env \<longrightarrow>
            from_environment ul ''SUBPROCESS_'' (environment_pairs uu H env) = H)"
proof -
  have enc: "to_environment_pairs uu H = map (\<lambda>(k, v). (env_key uu k, v)) H"
    using environment_pairs_append [OF assms, of uu "[]"] by (simp add: to_environment_pairs_def)
  have "from_environment ul ''SUBPROCESS_'' (to_environment_pairs uu H) = H"
    using from_environment_encoded [OF assms(2), of "[]" ul uu] by (simp add: enc)
  moreover have "map fst (to_environment_pairs uu H) =
           map (\<lambda>k. ''SUBPROCESS_'' @ replace_char (CHR ''-'') (CHR ''_'') (upper uu k)) (map fst H)"
    by (simp add: enc env_key_def comp_def case_prod_beta)
  moreover have "from_environment ul ''SUBPROCESS_'' (environment_pairs uu H env) = H"
    if "list_all (\<lambda>(k, v). \<not> startswith k ''SUBPROCESS_'') env" for env
  proof -
    have no: "\<forall>k \<in> fst ` set env. \<not> startswith k ''SUBPROCESS_''"
      using that by (auto simp: list_all_iff)
    then have "\<forall>k \<in> set (map fst H). env_key uu k \<notin> fst ` set env"
      using env_key_prefix by blast
    from environment_pairs_append [OF assms this] from_environment_encoded [OF assms(2) no]
    show ?thesis by simp
  qed
  ultimately show ?thesis by blast
qed

text \<open>
  Where C1 fails as stated. The name \<open>Sentry-Trace\<close> is decoded as \<open>sentry-trace\<close>; the
  names \<open>sentry-trace\<close> and \<open>Sentry_Trace\<close> are encoded into the same variable, so that no
  decoder can tell them apart; and two headers whose names differ in case only leave one
  variable.
\<close>

theorem environment_roundtrip_counterexample:
  "from_environment no_unicode ''SUBPROCESS_''
       (to_environment_pairs no_unicode [(''Sentry-Trace'', ''abc'')])
     = [(''sentry-trace'', ''abc'')]
   \<and> from_environment no_unicode ''SUBPROCESS_''
       (to_environment_pairs no_unicode [(''Sentry-Trace'', ''abc'')])
     \<noteq> [(''Sentry-Trace'', ''abc'')]
   \<and> to_environment_pairs no_unicode [(''sentry-trace'', ''abc'')]
     = to_environment_pairs no_unicode [(''Sentry_Trace'', ''abc'')]
   \<and> to_environment_pairs no_unicode [(''trace'', ''1''), (''Trace'', ''2'')]
     = [(''SUBPROCESS_TRACE'', ''2'')]"
  by (simp add: from_environment_def to_environment_pairs_def environment_pairs_def env_key_def
      upper_def upper_char_def replace_char_def startswith_def header_name_def lower_def
      lower_char_def is_ascii_def)

theorem environment_roundtrip_witness:
  "distinct (map fst [(''sentry-trace'', ''abc''), (''baggage'', ''k=v'')])
   \<and> list_all canonical_name (map fst [(''sentry-trace'', ''abc''), (''baggage'', ''k=v'')])
   \<and> list_all (\<lambda>(k, v). \<not> startswith k ''SUBPROCESS_'') [(''PATH'', ''/usr/bin'')]
   \<and> to_environment_pairs no_unicode [(''sentry-trace'', ''abc''), (''baggage'', ''k=v'')]
       = [(''SUBPROCESS_SENTRY_TRACE'', ''abc''), (''SUBPROCESS_BAGGAGE'', ''k=v'')]
   \<and> from_environment no_unicode ''SUBPROCESS_''
         (to_environment_pairs no_unicode [(''sentry-trace'', ''abc''), (''baggage'', ''k=v'')])
       = [(''sentry-trace'', ''abc''), (''baggage'', ''k=v'')]
   \<and> from_environment no_unicode ''SUBPROCESS_''
         (environment_pairs no_unicode [(''sentry-trace'', ''abc''), (''baggage'', ''k=v'')]
            [(''PATH'', ''/usr/bin'')])
       = [(''sentry-trace'', ''abc''), (''baggage'', ''k=v'')]"
proof -
  have d: "distinct (map fst [(''sentry-trace'', ''abc''), (''baggage'', ''k=v'')])"
    by simp
  have c: "list_all canonical_name (map fst [(''sentry-trace'', ''abc''), (''baggage'', ''k=v'')])"
    by (simp add: canonical_name_def is_ascii_def)
  have p: "list_all (\<lambda>(k, v). \<not> startswith k ''SUBPROCESS_'') [(''PATH'', ''/usr/bin'')]"
    by (simp add: startswith_def)
  have e: "to_environment_pairs no_unicode [(''sentry-trace'', ''abc''), (''baggage'', ''k=v'')]
       = [(''SUBPROCESS_SENTRY_TRACE'', ''abc''), (''SUBPROCESS_BAGGAGE'', ''k=v'')]"
    by (simp add: to_environment_pairs_def environment_pairs_def env_key_def
      upper_def upper_char_def replace_char_def is_ascii_def)
  note T = environment_roundtrip [OF d c, of no_unicode no_unicode]
  have r1: "from_environment no_unicode ''SUBPROCESS_''
         (to_environment_pairs no_unicode [(''sentry-trace'', ''abc''), (''baggage'', ''k=v'')])
       = [(''sentry-trace'', ''abc''), (''baggage'', ''k=v'')]"
    by (rule conjunct1 [OF T])
  have r2: "from_environment no_unicode ''SUBPROCESS_''
         (environment_pairs no_unicode [(''sentry-trace'', ''abc''), (''baggage'', ''k=v'')]
            [(''PATH'', ''/usr/bin'')])
       = [(''sentry-trace'', ''abc''), (''baggage'', ''k=v'')]"
    by (rule mp [OF spec [OF conjunct2 [OF conjunct2 [OF T]]] p])
  show ?thesis
    using d c p e r1 r2 by (intro conjI)
qed

section \<open>Facts about the runtime metadata reporter\<close>

lemma map_of_append_absent:
  "map_of d k = None \<Longrightarrow> map_of (d @ [(k, v)]) k' = (if k' = k then Some v else map_of d k')"
  by (induction d) (auto split: if_splits)

lemma update_appended:
  "map_of al k = None \<Longrightarrow> AList.update k v (al @ [(k, v0)]) = al @ [(k, v)]"
  by (induction al) (auto split: if_splits)

lemma add_python_runtime_context_cases:
  "add_python_runtime_context pf hb event hint =
     (if \<not> integration_active hb then event
      else (case map_of event ''contexts'' of
              None \<Rightarrow> event @ [(''contexts'', JDict [(''runtime'', RUNTIME_CONTEXT pf)])]
            | Some (JDict d) \<Rightarrow>
                (if map_of d ''runtime'' = None
                 then AList.update ''contexts'' (JDict (d @ [(''runtime'', RUNTIME_CONTEXT pf)])) event
                 else event)
            | Some other \<Rightarrow> event))"
  by (auto simp: add_python_runtime_context_def setdefault_def update_absent update_appended
      split: option.splits jval.splits)

text \<open>
  C9. The transform leaves the event alone when the integration is not active. It never
  removes or changes an entry of the event's contexts mapping, changes no key of it but
  \<open>runtime\<close>, and changes no other key of the event. The \<open>runtime\<close> entry changes only when
  the integration is active and the mapping had no such entry, and then (the contexts
  being absent or a dictionary) it is the descriptor \<open>RUNTIME_CONTEXT\<close>, which depends on
  the platform alone and not on the event.
\<close>

theorem runtime_context_added_once:
  "(\<not> integration_active hb \<longrightarrow> add_python_runtime_context pf hb event hint = event)
   \<and> (\<forall>k v. map_of (contexts_mapping event) k = Some v \<longrightarrow>
          map_of (contexts_mapping (add_python_runtime_context pf hb event hint)) k = Some v)
   \<and> (\<forall>k. k \<noteq> ''runtime'' \<longrightarrow>
          map_of (contexts_mapping (add_python_runtime_context pf hb event hint)) k
            = map_of (contexts_mapping event) k)
   \<and> (map_of (contexts_mapping (add_python_runtime_context pf hb event hint)) ''runtime''
        \<noteq> map_of (contexts_mapping event) ''runtime'' \<longrightarrow>
          integration_active hb
        \<and> map_of (contexts_mapping event) ''runtime'' = None
        \<and> map_of (contexts_mapping (add_python_runtime_context pf hb event hint)) ''runtime''
            = Some (RUNTIME_CONTEXT pf))
   \<and> (integration_active hb \<and> map_of (contexts_mapping event) ''runtime'' = None
        \<and> (map_of event ''contexts'' = None \<or> (\<exists>d. map_of event ''contexts'' = Some (JDict d))) \<longrightarrow>
          map_of (contexts_mapping (add_python_runtime_context pf hb event hint)) ''runtime''
            = Some (RUNTIME_CONTEXT pf))
   \<and> (\<forall>k. k \<noteq> ''contexts'' \<longrightarrow>
          map_of (add_python_runtime_context pf hb event hint) k = map_of event k)"
proof (cases "integration_active hb")
  case False
  then show ?thesis by (simp add: add_python_runtime_context_cases)
next
  case True
  show ?thesis
  proof (cases "map_of event ''contexts''")
    case None
    with True show ?thesis
      by (simp add: add_python_runtime_context_cases contexts_mapping_def map_of_append_absent
          del: map_of_append)
  next
    case (Some c)
    show ?thesis
    proof (cases c)
      case (JDict d)
      with True Some show ?thesis
        by (simp add: add_python_runtime_context_cases contexts_mapping_def map_of_append_absent
            update_conv' del: map_of_append)
    qed (use True Some in \<open>simp_all add: add_python_runtime_context_cases contexts_mapping_def\<close>)
  qed
qed

theorem runtime_context_added_once_witness:
  "integration_active ex_hub
   \<and> map_of (contexts_mapping ex_event) ''runtime'' = None
   \<and> map_of ex_event ''contexts'' = Some (JDict [(''os'', JStr ''Linux'')])
   \<and> map_of (contexts_mapping ex_event) ''os'' = Some (JStr ''Linux'')
   \<and> map_of (contexts_mapping (add_python_runtime_context ex_platform ex_hub ex_event ())) ''runtime''
       = Some (JDict [(''name'', JStr ''CPython''), (''version'', JStr ''3.7.4''),
                      (''build'', JStr ''3.7.4 (default, Jul  9 2019) [GCC 6.3.0]'')])
   \<and> map_of (contexts_mapping (add_python_runtime_context ex_platform ex_hub ex_event ())) ''os''
       = Some (JStr ''Linux'')
   \<and> \<not> integration_active (ex_hub\<lparr>integration_active := False\<rparr>)
   \<and> add_python_runtime_context ex_platform (ex_hub\<lparr>integration_active := False\<rparr>) ex_event ()
       = ex_event"
proof -
  have active: "integration_active ex_hub"
    by (simp add: ex_hub_def)
  have inactive: "\<not> integration_active (ex_hub\<lparr>integration_active := False\<rparr>)"
    by simp
  have ctx: "map_of ex_event ''contexts'' = Some (JDict [(''os'', JStr ''Linux'')])"
    by (simp add: ex_event_def)
  have none: "map_of (contexts_mapping ex_event) ''runtime'' = None"
    and os: "map_of (contexts_mapping ex_event) ''os'' = Some (JStr ''Linux'')"
    by (simp_all add: contexts_mapping_def ctx)
  have rc: "RUNTIME_CONTEXT ex_platform =
      JDict [(''name'', JStr ''CPython''), (''version'', JStr ''3.7.4''),
             (''build'', JStr ''3.7.4 (default, Jul  9 2019) [GCC 6.3.0]'')]"
    by (simp add: RUNTIME_CONTEXT_def ex_platform_def str_int_def digit_char_def)
  note T = runtime_context_added_once [of ex_hub ex_platform ex_event "()"]
  note F = runtime_context_added_once
             [of "ex_hub\<lparr>integration_active := False\<rparr>" ex_platform ex_event "()"]
  have same: "add_python_runtime_context ex_platform (ex_hub\<lparr>integration_active := False\<rparr>)
                ex_event () = ex_event"
    by (rule mp [OF conjunct1 [OF F] inactive])
  have kept: "map_of (contexts_mapping (add_python_runtime_context ex_platform ex_hub ex_event ()))
                ''os'' = Some (JStr ''Linux'')"
    by (rule mp [OF spec [OF spec [OF conjunct1 [OF conjunct2 [OF T]]]] os])
  have shape: "map_of ex_event ''contexts'' = None
                 \<or> (\<exists>d. map_of ex_event ''contexts'' = Some (JDict d))"
    using ctx by (intro disjI2 exI)
  have "map_of (contexts_mapping (add_python_runtime_context ex_platform ex_hub ex_event ()))
          ''runtime'' = Some (RUNTIME_CONTEXT ex_platform)"
    by (rule mp [OF conjunct1 [OF conjunct2 [OF conjunct2 [OF conjunct2 [OF conjunct2 [OF T]]]]]
          conjI [OF active conjI [OF none shape]]])
  then have added: "map_of (contexts_mapping
                       (add_python_runtime_context ex_platform ex_hub ex_event ())) ''runtime''
       = Some (JDict [(''name'', JStr ''CPython''), (''version'', JStr ''3.7.4''),
                      (''build'', JStr ''3.7.4 (default, Jul  9 2019) [GCC 6.3.0]'')])"
    by (simp only: rc)
  show ?thesis
    using active none ctx os added kept inactive same by (intro conjI)
qed

end
